theory Spec2Isabelle
  imports Complex_Main "HOL-Library.Char_ord" "HOL-Library.List_Lexorder"
begin

section \<open>Python values and the objects the GitLab client returns\<close>

text \<open>
  The exporter (\<^verbatim>\<open>gitlab-export.py\<close>) reads attributes of REST objects whose values come from
  JSON: \<^verbatim>\<open>None\<close>, booleans, integers and strings. A Python \<^verbatim>\<open>str\<close> is modelled by its UTF-8
  bytes; the byte-wise lexicographic order of \<^typ>\<open>string\<close> (from \<open>Char_ord\<close> and
  \<open>List_Lexorder\<close>) then agrees with Python's code-point order on \<^verbatim>\<open>str\<close>. Python integers
  are unbounded, hence \<^typ>\<open>int\<close>. Floats, lists and dictionaries as attribute values are
  outside the model.
\<close>

datatype pyval = PyNone | PyBool bool | PyInt int | PyStr string

text \<open>A REST object is the dictionary of its attributes.\<close>

type_synonym obj = "string \<rightharpoonup> pyval"

text \<open>Truthiness, as \<^verbatim>\<open>if x\<close>, \<^verbatim>\<open>not x\<close>, \<^verbatim>\<open>x or y\<close> and \<^verbatim>\<open>bool(x)\<close> use it.\<close>

fun truthy :: "pyval \<Rightarrow> bool" where
  "truthy PyNone = False"
| "truthy (PyBool b) = b"
| "truthy (PyInt i) = (i \<noteq> 0)"
| "truthy (PyStr s) = (s \<noteq> [])"

definition py_or :: "pyval \<Rightarrow> pyval \<Rightarrow> pyval" where
  "py_or x y = (if truthy x then x else y)"

text \<open>
  \<^verbatim>\<open>str(n)\<close> for an integer: the decimal digits, most significant first, with a leading
  minus sign for a negative number. (The interpreter's optional limit on the number of
  digits of a conversion is not modelled.)
\<close>

definition digit_char :: "nat \<Rightarrow> char" where
  "digit_char d = ''0123456789'' ! d"

function str_nat :: "nat \<Rightarrow> string" where
  "str_nat n = (if n < 10 then [digit_char n] else str_nat (n div 10) @ [digit_char (n mod 10)])"
  by pat_completeness auto
termination
  by (relation "measure id") auto

declare str_nat.simps [simp del]

definition str_int :: "int \<Rightarrow> string" where
  "str_int i = (if i < 0 then CHR ''-'' # str_nat (nat (- i)) else str_nat (nat i))"

text \<open>\<^verbatim>\<open>str(x)\<close>, which is also what an f-string field \<^verbatim>\<open>{x}\<close> inserts.\<close>

fun py_str :: "pyval \<Rightarrow> string" where
  "py_str PyNone = ''None''"
| "py_str (PyBool b) = (if b then ''True'' else ''False'')"
| "py_str (PyInt i) = str_int i"
| "py_str (PyStr s) = s"

text \<open>\<^verbatim>\<open>sep.join(xs)\<close>.\<close>

fun join :: "string \<Rightarrow> string list \<Rightarrow> string" where
  "join sep [] = []"
| "join sep [x] = x"
| "join sep (x # y # ys) = x @ sep @ join sep (y # ys)"

text \<open>\<^verbatim>\<open>s.split(c)\<close> for a separator of one character.\<close>

fun split_on :: "char \<Rightarrow> string \<Rightarrow> string list" where
  "split_on c [] = [[]]"
| "split_on c (x # xs) =
     (if x = c then [] # split_on c xs
      else (case split_on c xs of [] \<Rightarrow> [[x]] | y # ys \<Rightarrow> (x # y) # ys))"

section \<open>Lazy, paginated listings\<close>

datatype error = GitlabError string | AttributeError string | SystemExit nat

text \<open>
  \<^verbatim>\<open>iter_all(list_callable, **kwargs)\<close> calls python-gitlab with \<^verbatim>\<open>iterator=True\<close> and gets a
  lazy iterator over a paginated listing. The library is not part of the repository; a
  listing is taken as the sequence of its page fetches: a fetch returns a page of items and
  what follows (\<open>Page\<close>), or raises (\<open>Raise\<close>); \<open>End\<close> is the exhausted listing. The first
  fetch happens when the iterator is created, the later ones when the consumer has used
  up a page.
\<close>

datatype 'a walk = End | Raise error | Page "'a list" "'a walk"

text \<open>The items a full traversal yields, and whether the traversal ends without raising.\<close>

fun walk_items :: "'a walk \<Rightarrow> 'a list" where
  "walk_items End = []"
| "walk_items (Raise e) = []"
| "walk_items (Page xs w) = xs @ walk_items w"

fun walk_error :: "'a walk \<Rightarrow> error option" where
  "walk_error End = None"
| "walk_error (Raise e) = Some e"
| "walk_error (Page xs w) = walk_error w"

text \<open>
  The Python statement \<^verbatim>\<open>for x in it: body\<close> over such an iterator, with the loop's variables
  and the world in the state \<open>'s\<close>. An exception of the body or of a page fetch leaves the
  loop at once; the state reached so far is kept.
\<close>

fun for_walk :: "('a \<Rightarrow> 's \<Rightarrow> (error + unit) \<times> 's) \<Rightarrow> 'a walk \<Rightarrow> 's \<Rightarrow> (error + unit) \<times> 's" where
  "for_walk body End s = (Inr (), s)"
| "for_walk body (Raise e) s = (Inl e, s)"
| "for_walk body (Page [] w) s = for_walk body w s"
| "for_walk body (Page (x # xs) w) s =
     (case body x s of
        (Inl e, s') \<Rightarrow> (Inl e, s')
      | (Inr u, s') \<Rightarrow> for_walk body (Page xs w) s')"

section \<open>Access levels and the member summary\<close>

definition ACCESS_LEVELS :: "int \<rightharpoonup> string" where
  "ACCESS_LEVELS = [10 \<mapsto> ''Guest'', 20 \<mapsto> ''Reporter'', 30 \<mapsto> ''Developer'',
                    40 \<mapsto> ''Maintainer'', 50 \<mapsto> ''Owner'']"

text \<open>
  \<^verbatim>\<open>ACCESS_LEVELS.get(level, ...)\<close> with a key of any type: a dictionary with integer keys
  finds an integer, and a boolean as the integer it equals (\<^verbatim>\<open>True == 1\<close>); \<^verbatim>\<open>None\<close> and
  strings equal no integer.
\<close>

fun levels_get :: "pyval \<Rightarrow> string option" where
  "levels_get (PyInt i) = ACCESS_LEVELS i"
| "levels_get (PyBool b) = ACCESS_LEVELS (if b then 1 else 0)"
| "levels_get v = None"

definition access_level_name :: "pyval \<Rightarrow> string" where
  "access_level_name level =
     (if level = PyNone then ''''
      else case levels_get level of Some nm \<Rightarrow> nm | None \<Rightarrow> py_str level)"

definition safe_get :: "obj \<Rightarrow> string \<Rightarrow> pyval \<Rightarrow> pyval" where
  "safe_get ob attr dflt = (case ob attr of None \<Rightarrow> dflt | Some v \<Rightarrow> v)"

text \<open>The body of the loop of \<^verbatim>\<open>format_members\<close>: the identity, then the part appended.\<close>

definition member_ident :: "obj \<Rightarrow> string" where
  "member_ident m =
     (let username = py_or (safe_get m ''username'' (PyStr '''')) (PyStr '''');
          name = py_or (safe_get m ''name'' (PyStr '''')) (PyStr '''');
          ident = (if truthy username then username else name)
      in if \<not> truthy ident then ''user_id_'' @ py_str (safe_get m ''id'' (PyStr ''''))
         else py_str ident)"

definition member_part :: "obj \<Rightarrow> string" where
  "member_part m =
     (let access_level = safe_get m ''access_level'' PyNone;
          role = access_level_name access_level
      in member_ident m @ '':'' @ role)"

text \<open>
  \<^verbatim>\<open>format_members\<close> consumes the iterator of members: the loop appends one part per member
  and cannot fail by itself, a page fetch of the listing can. \<^verbatim>\<open>sorted(set(parts))\<close> is the
  ascending list of the distinct parts.
\<close>

definition format_members :: "obj walk \<Rightarrow> error + string" where
  "format_members members_iter =
     (case for_walk (\<lambda>m members_parts. (Inr (), members_parts @ [member_part m])) members_iter [] of
        (Inl e, members_parts) \<Rightarrow> Inl e
      | (Inr u, members_parts) \<Rightarrow> Inr (join '';'' (sorted_list_of_set (set members_parts))))"

section \<open>The world the exporters act on\<close>

text \<open>
  A path is a directory and a file name (\<^verbatim>\<open>outdir / "projects.csv"\<close>); \<^verbatim>\<open>path.name\<close> is the
  file name. \<^verbatim>\<open>Path(s)\<close> keeps a directory in pathlib's normal form for POSIX paths: empty
  components and \<^verbatim>\<open>.\<close> components are dropped, a leading slash is kept (two leading slashes
  stay two, more become one), and the empty path is \<^verbatim>\<open>.\<close>; \<^verbatim>\<open>str(path)\<close> then joins the
  directory and the file name. A CSV file is the list of the rows written to it, a row the
  list of its cells in the order of the field names; how the \<^verbatim>\<open>csv\<close> module encodes a cell
  is not modelled. The file system is taken to be reliable: opening and writing do not
  fail.
\<close>

type_synonym path = "string \<times> string"

type_synonym row = "pyval list"

definition posix_norm :: "string \<Rightarrow> string" where
  "posix_norm s =
     (let root = (if take 2 s = ''//'' \<and> take 3 s \<noteq> ''///'' then ''//''
                  else if take 1 s = ''/'' then ''/'' else []);
          parts = filter (\<lambda>c. c \<noteq> [] \<and> c \<noteq> ''.'') (split_on CHR ''/'' s)
      in if root = [] \<and> parts = [] then ''.'' else root @ join ''/'' parts)"

definition path_str :: "path \<Rightarrow> string" where
  "path_str p =
     (if fst p = ''.'' then snd p
      else if fst p = ''/'' \<or> fst p = ''//'' then fst p @ snd p
      else fst p @ ''/'' @ snd p)"

text \<open>
  The calls the program makes on the python-gitlab client, in the order it makes them. The
  world keeps them in \<open>api_calls\<close>, next to the files, the directories created, the two
  output channels and the time spent in \<^verbatim>\<open>time.sleep\<close>.
\<close>

datatype api_call =
    Auth
  | ProjectsList bool
  | ProjectsGet pyval
  | GroupsList
  | GroupsGet pyval
  | UsersList
  | UsersGet pyval
  | MembersAllList
  | MembersList

record world =
  files :: "path \<rightharpoonup> row list"
  dirs :: "string set"
  stderr :: "string list"
  stdout :: "string list"
  api_calls :: "api_call list"
  slept :: real

definition eprint :: "string \<Rightarrow> world \<Rightarrow> world" where
  "eprint msg st = st\<lparr>stderr := stderr st @ [msg]\<rparr>"

definition print :: "string \<Rightarrow> world \<Rightarrow> world" where
  "print msg st = st\<lparr>stdout := stdout st @ [msg]\<rparr>"

definition api :: "api_call \<Rightarrow> world \<Rightarrow> world" where
  "api c st = st\<lparr>api_calls := api_calls st @ [c]\<rparr>"

text \<open>\<^verbatim>\<open>out_csv.open("w", ...)\<close>: the file is created, or truncated when it exists.\<close>

definition open_w :: "path \<Rightarrow> world \<Rightarrow> world" where
  "open_w p st = st\<lparr>files := (files st)(p \<mapsto> [])\<rparr>"

definition write_row :: "path \<Rightarrow> row \<Rightarrow> world \<Rightarrow> world" where
  "write_row p r st =
     st\<lparr>files := (files st)(p \<mapsto> (case files st p of None \<Rightarrow> [] | Some rs \<Rightarrow> rs) @ [r])\<rparr>"

text \<open>
  \<^verbatim>\<open>outdir.mkdir(parents=True, exist_ok=True)\<close>; the directories created on the way to
  \<open>d\<close> are not tracked.
\<close>

definition mkdir :: "string \<Rightarrow> world \<Rightarrow> world" where
  "mkdir d st = st\<lparr>dirs := insert d (dirs st)\<rparr>"

text \<open>\<^verbatim>\<open>if sleep_s > 0: time.sleep(sleep_s)\<close>.\<close>

definition sleep_if :: "real \<Rightarrow> world \<Rightarrow> world" where
  "sleep_if sleep_s st = (if sleep_s > 0 then st\<lparr>slept := slept st + sleep_s\<rparr> else st)"

text \<open>
  \<^verbatim>\<open>csv.DictWriter(f, fieldnames=...)\<close>: \<^verbatim>\<open>writeheader\<close> writes the field names, \<^verbatim>\<open>writerow\<close>
  the values of the dictionary in the order of the field names.
\<close>

definition header_row :: "string list \<Rightarrow> row" where
  "header_row fieldnames = map PyStr fieldnames"

definition dict_row :: "string list \<Rightarrow> (string \<times> pyval) list \<Rightarrow> row" where
  "dict_row fieldnames d = map (\<lambda>k. case map_of d k of None \<Rightarrow> PyStr '''' | Some v \<Rightarrow> v) fieldnames"

section \<open>The client\<close>

text \<open>
  The python-gitlab client is a collaborator outside the repository; what it answers is a
  parameter of the model. A project or group fetched in detail carries its attributes and
  its two member listings. Attribute access \<^verbatim>\<open>ob.id\<close> raises when the attribute is absent.
\<close>

record resource =
  attrs :: obj
  members_all :: "obj walk"
  members :: "obj walk"

record gitlab =
  auth :: "error option"
  projects_list :: "bool \<Rightarrow> obj walk"
  projects_get :: "pyval \<Rightarrow> error + resource"
  groups_list :: "obj walk"
  groups_get :: "pyval \<Rightarrow> error + resource"
  users_list :: "obj walk"
  users_get :: "pyval \<Rightarrow> error + obj"

definition get_attr :: "obj \<Rightarrow> string \<Rightarrow> error + pyval" where
  "get_attr ob attr = (case ob attr of None \<Rightarrow> Inl (AttributeError attr) | Some v \<Rightarrow> Inr v)"

text \<open>\<^verbatim>\<open>iter_all\<close>: creating the iterator performs the first page fetch.\<close>

definition iter_all :: "'a walk \<Rightarrow> error + 'a walk" where
  "iter_all listing = (case listing of Raise e \<Rightarrow> Inl e | _ \<Rightarrow> Inr listing)"

section \<open>The exporters\<close>

definition project_fieldnames :: "string list" where
  "project_fieldnames = [''project_id'', ''project_name'', ''project_path_with_namespace'',
     ''http_url_to_repo'', ''default_branch'', ''visibility'', ''archived'', ''members'']"

definition group_fieldnames :: "string list" where
  "group_fieldnames = [''group_id'', ''group_name'', ''group_full_path'', ''web_url'',
     ''visibility'', ''parent_id'', ''members'']"

definition user_fieldnames :: "string list" where
  "user_fieldnames = [''user_id'', ''username'', ''name'', ''state'', ''is_admin'', ''external'',
     ''bot'', ''email'', ''created_at'', ''last_sign_in_at'']"

text \<open>
  What the body of the loop of \<^verbatim>\<open>export_projects\<close> reads for one listed project \<open>p\<close>, up to
  the dictionary handed to \<^verbatim>\<open>writerow\<close>: the result, and the client calls made. The member
  iterator is created before the dictionary is built, and the dictionary's entries are
  evaluated in order, \<^verbatim>\<open>proj.id\<close> first and \<^verbatim>\<open>format_members\<close> last.
\<close>

definition fetch_project :: "gitlab \<Rightarrow> string \<Rightarrow> obj \<Rightarrow> (error + row) \<times> api_call list" where
  "fetch_project gl members_scope p =
     (case get_attr p ''id'' of
        Inl e \<Rightarrow> (Inl e, [])
      | Inr pid \<Rightarrow>
          (case projects_get gl pid of
             Inl e \<Rightarrow> (Inl e, [ProjectsGet pid])
           | Inr proj \<Rightarrow>
               (let calls = [ProjectsGet pid,
                             if members_scope = ''all'' then MembersAllList else MembersList]
                in case iter_all (if members_scope = ''all'' then members_all proj else members proj) of
                     Inl e \<Rightarrow> (Inl e, calls)
                   | Inr members_iter \<Rightarrow>
                       (case get_attr (attrs proj) ''id'' of
                          Inl e \<Rightarrow> (Inl e, calls)
                        | Inr proj_id \<Rightarrow>
                            (case format_members members_iter of
                               Inl e \<Rightarrow> (Inl e, calls)
                             | Inr ms \<Rightarrow>
                                 (Inr (dict_row project_fieldnames
                                    [(''project_id'', proj_id),
                                     (''project_name'', safe_get (attrs proj) ''name'' (PyStr '''')),
                                     (''project_path_with_namespace'',
                                        safe_get (attrs proj) ''path_with_namespace'' (PyStr '''')),
                                     (''http_url_to_repo'',
                                        safe_get (attrs proj) ''http_url_to_repo'' (PyStr '''')),
                                     (''default_branch'',
                                        safe_get (attrs proj) ''default_branch'' (PyStr '''')),
                                     (''visibility'', safe_get (attrs proj) ''visibility'' (PyStr '''')),
                                     (''archived'',
                                        PyBool (truthy (safe_get (attrs proj) ''archived'' (PyBool False)))),
                                     (''members'', PyStr ms)]), calls))))))"

definition export_projects_body ::
  "gitlab \<Rightarrow> path \<Rightarrow> string \<Rightarrow> real \<Rightarrow> obj \<Rightarrow> int \<times> world \<Rightarrow> (error + unit) \<times> (int \<times> world)" where
  "export_projects_body gl out_csv members_scope sleep_s p = (\<lambda>(count0, st0).
     (let count = count0 + 1;
          (res, calls) = fetch_project gl members_scope p;
          st = st0\<lparr>api_calls := api_calls st0 @ calls\<rparr>
      in case res of
           Inl e \<Rightarrow> (Inl e, (count, st))
         | Inr r \<Rightarrow>
             (let st = write_row out_csv r st;
                  st = sleep_if sleep_s st;
                  st = (if count mod 50 = 0
                        then eprint (''  ...'' @ str_int count @ '' projects processed'') st else st)
              in (Inr (), (count, st)))))"

definition export_projects ::
  "gitlab \<Rightarrow> path \<Rightarrow> bool \<Rightarrow> string \<Rightarrow> real \<Rightarrow> world \<Rightarrow> (error + unit) \<times> world" where
  "export_projects gl out_csv archived members_scope sleep_s st0 =
     (let label = (if archived then ''archived projects'' else ''active projects'');
          st = eprint (''Exporting '' @ label @ '' -> '' @ snd out_csv @ '' ...'') st0;
          st = open_w out_csv st;
          st = write_row out_csv (header_row project_fieldnames) st;
          st = api (ProjectsList archived) st
      in case iter_all (projects_list gl archived) of
           Inl e \<Rightarrow> (Inl e, st)
         | Inr projects \<Rightarrow>
             (case for_walk (export_projects_body gl out_csv members_scope sleep_s) projects (0, st) of
                (Inl e, (count, st)) \<Rightarrow> (Inl e, st)
              | (Inr u, (count, st)) \<Rightarrow>
                  (Inr (), eprint (''Projects export complete: '' @ path_str out_csv) st)))"

definition fetch_group :: "gitlab \<Rightarrow> string \<Rightarrow> obj \<Rightarrow> (error + row) \<times> api_call list" where
  "fetch_group gl members_scope g =
     (case get_attr g ''id'' of
        Inl e \<Rightarrow> (Inl e, [])
      | Inr gid \<Rightarrow>
          (case groups_get gl gid of
             Inl e \<Rightarrow> (Inl e, [GroupsGet gid])
           | Inr grp \<Rightarrow>
               (let calls = [GroupsGet gid,
                             if members_scope = ''all'' then MembersAllList else MembersList]
                in case iter_all (if members_scope = ''all'' then members_all grp else members grp) of
                     Inl e \<Rightarrow> (Inl e, calls)
                   | Inr members_iter \<Rightarrow>
                       (case get_attr (attrs grp) ''id'' of
                          Inl e \<Rightarrow> (Inl e, calls)
                        | Inr grp_id \<Rightarrow>
                            (case format_members members_iter of
                               Inl e \<Rightarrow> (Inl e, calls)
                             | Inr ms \<Rightarrow>
                                 (Inr (dict_row group_fieldnames
                                    [(''group_id'', grp_id),
                                     (''group_name'', safe_get (attrs grp) ''name'' (PyStr '''')),
                                     (''group_full_path'', safe_get (attrs grp) ''full_path'' (PyStr '''')),
                                     (''web_url'', safe_get (attrs grp) ''web_url'' (PyStr '''')),
                                     (''visibility'', safe_get (attrs grp) ''visibility'' (PyStr '''')),
                                     (''parent_id'', safe_get (attrs grp) ''parent_id'' (PyStr '''')),
                                     (''members'', PyStr ms)]), calls))))))"

definition export_groups_body ::
  "gitlab \<Rightarrow> path \<Rightarrow> string \<Rightarrow> real \<Rightarrow> obj \<Rightarrow> int \<times> world \<Rightarrow> (error + unit) \<times> (int \<times> world)" where
  "export_groups_body gl out_csv members_scope sleep_s g = (\<lambda>(count0, st0).
     (let count = count0 + 1;
          (res, calls) = fetch_group gl members_scope g;
          st = st0\<lparr>api_calls := api_calls st0 @ calls\<rparr>
      in case res of
           Inl e \<Rightarrow> (Inl e, (count, st))
         | Inr r \<Rightarrow>
             (let st = write_row out_csv r st;
                  st = sleep_if sleep_s st;
                  st = (if count mod 100 = 0
                        then eprint (''  ...'' @ str_int count @ '' groups processed'') st else st)
              in (Inr (), (count, st)))))"

definition export_groups ::
  "gitlab \<Rightarrow> path \<Rightarrow> string \<Rightarrow> real \<Rightarrow> world \<Rightarrow> (error + unit) \<times> world" where
  "export_groups gl out_csv members_scope sleep_s st0 =
     (let st = eprint (''Exporting groups -> '' @ snd out_csv @ '' ...'') st0;
          st = open_w out_csv st;
          st = write_row out_csv (header_row group_fieldnames) st;
          st = api GroupsList st
      in case iter_all (groups_list gl) of
           Inl e \<Rightarrow> (Inl e, st)
         | Inr groups \<Rightarrow>
             (case for_walk (export_groups_body gl out_csv members_scope sleep_s) groups (0, st) of
                (Inl e, (count, st)) \<Rightarrow> (Inl e, st)
              | (Inr u, (count, st)) \<Rightarrow>
                  (Inr (), eprint (''Groups export complete: '' @ path_str out_csv) st)))"

definition fetch_user :: "gitlab \<Rightarrow> obj \<Rightarrow> (error + row) \<times> api_call list" where
  "fetch_user gl u =
     (case get_attr u ''id'' of
        Inl e \<Rightarrow> (Inl e, [])
      | Inr uid \<Rightarrow>
          (case users_get gl uid of
             Inl e \<Rightarrow> (Inl e, [UsersGet uid])
           | Inr user \<Rightarrow>
               (case get_attr user ''id'' of
                  Inl e \<Rightarrow> (Inl e, [UsersGet uid])
                | Inr user_id \<Rightarrow>
                    (Inr (dict_row user_fieldnames
                       [(''user_id'', user_id),
                        (''username'', safe_get user ''username'' (PyStr '''')),
                        (''name'', safe_get user ''name'' (PyStr '''')),
                        (''state'', safe_get user ''state'' (PyStr '''')),
                        (''is_admin'', PyBool (truthy (safe_get user ''is_admin'' (PyBool False)))),
                        (''external'', PyBool (truthy (safe_get user ''external'' (PyBool False)))),
                        (''bot'', PyBool (truthy (safe_get user ''bot'' (PyBool False)))),
                        (''email'', safe_get user ''email'' (PyStr '''')),
                        (''created_at'', safe_get user ''created_at'' (PyStr '''')),
                        (''last_sign_in_at'', safe_get user ''last_sign_in_at'' (PyStr ''''))]),
                     [UsersGet uid]))))"

definition export_users_body ::
  "gitlab \<Rightarrow> path \<Rightarrow> real \<Rightarrow> obj \<Rightarrow> int \<times> world \<Rightarrow> (error + unit) \<times> (int \<times> world)" where
  "export_users_body gl out_csv sleep_s u = (\<lambda>(count0, st0).
     (let count = count0 + 1;
          (res, calls) = fetch_user gl u;
          st = st0\<lparr>api_calls := api_calls st0 @ calls\<rparr>
      in case res of
           Inl e \<Rightarrow> (Inl e, (count, st))
         | Inr r \<Rightarrow>
             (let st = write_row out_csv r st;
                  st = sleep_if sleep_s st;
                  st = (if count mod 200 = 0
                        then eprint (''  ...'' @ str_int count @ '' users processed'') st else st)
              in (Inr (), (count, st)))))"

definition export_users :: "gitlab \<Rightarrow> path \<Rightarrow> real \<Rightarrow> world \<Rightarrow> (error + unit) \<times> world" where
  "export_users gl out_csv sleep_s st0 =
     (let st = eprint (''Exporting users -> '' @ snd out_csv @ '' ...'') st0;
          st = open_w out_csv st;
          st = write_row out_csv (header_row user_fieldnames) st;
          st = api UsersList st
      in case iter_all (users_list gl) of
           Inl e \<Rightarrow> (Inl e, st)
         | Inr users \<Rightarrow>
             (case for_walk (export_users_body gl out_csv sleep_s) users (0, st) of
                (Inl e, (count, st)) \<Rightarrow> (Inl e, st)
              | (Inr u, (count, st)) \<Rightarrow>
                  (Inr (), eprint (''Users export complete: '' @ path_str out_csv) st)))"

section \<open>The orchestrator\<close>

text \<open>
  The parsed command line (\<^verbatim>\<open>argparse\<close>, with the environment's defaults for URL and
  token already applied), and what \<^verbatim>\<open>main\<close> takes from its environment: the client that
  \<^verbatim>\<open>gitlab.Gitlab(url, private_token, ssl_verify)\<close> builds, the clock's \<^verbatim>\<open>utc_stamp()\<close> and
  \<^verbatim>\<open>Path.resolve\<close>.
\<close>

record args =
  arg_url :: string
  arg_token :: string
  arg_outdir :: string
  arg_include_archived :: bool
  arg_members_scope :: string
  arg_no_ssl_verify :: bool
  arg_sleep :: real

record env =
  gitlab_client :: "string \<Rightarrow> string \<Rightarrow> bool \<Rightarrow> gitlab"
  utc_stamp :: string
  resolve :: "string \<Rightarrow> string"

definition make_gitlab_client ::
  "env \<Rightarrow> string \<Rightarrow> string \<Rightarrow> bool \<Rightarrow> world \<Rightarrow> (error + gitlab) \<times> world" where
  "make_gitlab_client ev url token ssl_verify st0 =
     (let gl = gitlab_client ev url token ssl_verify;
          st = api Auth st0
      in case auth gl of Some e \<Rightarrow> (Inl e, st) | None \<Rightarrow> (Inr gl, st))"

definition main :: "env \<Rightarrow> args \<Rightarrow> world \<Rightarrow> (error + unit) \<times> world" where
  "main ev a st0 =
     (if arg_url a = []
      then (Inl (SystemExit 2),
            eprint ''ERROR: GitLab URL not provided. Use --url or set GITLAB_URL.'' st0)
      else if arg_token a = []
      then (Inl (SystemExit 2),
            eprint ''ERROR: GitLab token not provided. Use --token or set GITLAB_TOKEN.'' st0)
      else
        (let outdir = posix_norm (if arg_outdir a \<noteq> [] then arg_outdir a
                                  else ''gitlab_export_'' @ utc_stamp ev);
             st = mkdir outdir st0;
             ssl_verify = (\<not> arg_no_ssl_verify a);
             st = eprint (''Connecting to '' @ arg_url a @ '' (ssl_verify=''
                          @ py_str (PyBool ssl_verify) @ '') ...'') st
         in case make_gitlab_client ev (arg_url a) (arg_token a) ssl_verify st of
              (Inl e, st) \<Rightarrow> (Inl e, st)
            | (Inr gl, st) \<Rightarrow>
         (case export_projects gl (outdir, ''projects.csv'') False
                 (arg_members_scope a) (arg_sleep a) st of
              (Inl e, st) \<Rightarrow> (Inl e, st)
            | (Inr u, st) \<Rightarrow>
         (case (if arg_include_archived a
                then export_projects gl (outdir, ''archived_projects.csv'') True
                       (arg_members_scope a) (arg_sleep a) st
                else (Inr (), st)) of
              (Inl e, st) \<Rightarrow> (Inl e, st)
            | (Inr u, st) \<Rightarrow>
         (case export_groups gl (outdir, ''groups.csv'') (arg_members_scope a) (arg_sleep a) st of
              (Inl e, st) \<Rightarrow> (Inl e, st)
            | (Inr u, st) \<Rightarrow>
         (case export_users gl (outdir, ''users.csv'') (arg_sleep a) st of
              (Inl e, st) \<Rightarrow> (Inl e, st)
            | (Inr u, st) \<Rightarrow> (Inr (), print (resolve ev outdir) st)))))))"

text \<open>
  The status the process exits with: 0 when \<^verbatim>\<open>main\<close> returns, the argument of
  \<^verbatim>\<open>sys.exit\<close>, and 1 for any other uncaught exception.
\<close>

fun exit_status :: "error + unit \<Rightarrow> nat" where
  "exit_status (Inr u) = 0"
| "exit_status (Inl (SystemExit n)) = n"
| "exit_status (Inl e) = 1"

section \<open>Reference functions for stating the properties\<close>

text \<open>Reading a decimal numeral back, to check \<open>str_nat\<close> against.\<close>

definition digit_val :: "char \<Rightarrow> nat" where
  "digit_val c = of_char c - 48"

definition nat_of_digits :: "string \<Rightarrow> nat" where
  "nat_of_digits s = foldl (\<lambda>a c. 10 * a + digit_val c) 0 s"

text \<open>
  What a loop over a listing gets done when each item is processed by \<open>f\<close>: the results of
  the items processed before the first failure (of \<open>f\<close> or of a page fetch), and that
  failure, if any.
\<close>

fun walk_run :: "('a \<Rightarrow> error + 'b) \<Rightarrow> 'a walk \<Rightarrow> 'b list \<times> error option" where
  "walk_run f End = ([], None)"
| "walk_run f (Raise e) = ([], Some e)"
| "walk_run f (Page [] w) = walk_run f w"
| "walk_run f (Page (x # xs) w) =
     (case f x of
        Inl e \<Rightarrow> ([], Some e)
      | Inr y \<Rightarrow> (case walk_run f (Page xs w) of (ys, r) \<Rightarrow> (y # ys, r)))"

definition outcome :: "error option \<Rightarrow> error + unit" where
  "outcome r = (case r of None \<Rightarrow> Inr () | Some e \<Rightarrow> Inl e)"

text \<open>Appending a row to a file in the map of files.\<close>

definition add_row :: "path \<Rightarrow> row \<Rightarrow> (path \<rightharpoonup> row list) \<Rightarrow> (path \<rightharpoonup> row list)" where
  "add_row p r F = F(p \<mapsto> (case F p of None \<Rightarrow> [] | Some rs \<Rightarrow> rs) @ [r])"

text \<open>
  The calls that open a stage of the run (the listing of projects, groups or users), and the
  lines of the diagnostic channel that announce an exporter.
\<close>

fun is_stage :: "api_call \<Rightarrow> bool" where
  "is_stage (ProjectsList a) = True"
| "is_stage GroupsList = True"
| "is_stage UsersList = True"
| "is_stage c = False"

definition is_announce :: "string \<Rightarrow> bool" where
  "is_announce s = (take 10 s = ''Exporting '')"

text \<open>
  The rows an exporter gets written and the failure that stops it, read off the client's
  answers alone.
\<close>

definition project_rows :: "gitlab \<Rightarrow> string \<Rightarrow> bool \<Rightarrow> row list \<times> error option" where
  "project_rows gl members_scope archived =
     walk_run (\<lambda>p. fst (fetch_project gl members_scope p)) (projects_list gl archived)"

definition group_rows :: "gitlab \<Rightarrow> string \<Rightarrow> row list \<times> error option" where
  "group_rows gl members_scope =
     walk_run (\<lambda>g. fst (fetch_group gl members_scope g)) (groups_list gl)"

definition user_rows :: "gitlab \<Rightarrow> row list \<times> error option" where
  "user_rows gl = walk_run (\<lambda>u. fst (fetch_user gl u)) (users_list gl)"

text \<open>The output directory and the client of a run, as \<^verbatim>\<open>main\<close> computes them.\<close>

definition out_dir :: "env \<Rightarrow> args \<Rightarrow> string" where
  "out_dir ev a =
     posix_norm (if arg_outdir a \<noteq> [] then arg_outdir a else ''gitlab_export_'' @ utc_stamp ev)"

definition client :: "env \<Rightarrow> args \<Rightarrow> gitlab" where
  "client ev a = gitlab_client ev (arg_url a) (arg_token a) (\<not> arg_no_ssl_verify a)"

text \<open>
  The failure that ends a run whose connection is validated: the first one in the order of
  the stages. And the files such a run leaves: each stage that starts replaces its file by
  the header and the rows written before its failure, if any; no stage starts after a
  failure.
\<close>

definition first_failure :: "gitlab \<Rightarrow> string \<Rightarrow> bool \<Rightarrow> error option" where
  "first_failure gl members_scope include_archived =
     (case snd (project_rows gl members_scope False) of
        Some e \<Rightarrow> Some e
      | None \<Rightarrow>
          (case (if include_archived then snd (project_rows gl members_scope True) else None) of
             Some e \<Rightarrow> Some e
           | None \<Rightarrow>
               (case snd (group_rows gl members_scope) of
                  Some e \<Rightarrow> Some e
                | None \<Rightarrow> snd (user_rows gl))))"

definition run_files ::
  "gitlab \<Rightarrow> string \<Rightarrow> bool \<Rightarrow> string \<Rightarrow> (path \<rightharpoonup> row list) \<Rightarrow> (path \<rightharpoonup> row list)" where
  "run_files gl members_scope include_archived d F0 =
     (let F1 = F0((d, ''projects.csv'') \<mapsto>
                  header_row project_fieldnames # fst (project_rows gl members_scope False))
      in case snd (project_rows gl members_scope False) of
           Some e \<Rightarrow> F1
         | None \<Rightarrow>
             (let F2 = (if include_archived
                        then F1((d, ''archived_projects.csv'') \<mapsto>
                               header_row project_fieldnames # fst (project_rows gl members_scope True))
                        else F1)
              in case (if include_archived then snd (project_rows gl members_scope True) else None) of
                   Some e \<Rightarrow> F2
                 | None \<Rightarrow>
                     (let F3 = F2((d, ''groups.csv'') \<mapsto>
                                  header_row group_fieldnames # fst (group_rows gl members_scope))
                      in case snd (group_rows gl members_scope) of
                           Some e \<Rightarrow> F3
                         | None \<Rightarrow>
                             F3((d, ''users.csv'') \<mapsto>
                                header_row user_fieldnames # fst (user_rows gl)))))"

text \<open>
  A listing is read to its end and every item of it is processed without a failure; and a
  file holds the header followed by one row per item, in the order of the items.
\<close>

definition all_fetched :: "('a \<Rightarrow> error + 'b) \<Rightarrow> 'a walk \<Rightarrow> bool" where
  "all_fetched f w = (walk_error w = None \<and> list_all (\<lambda>x. \<not> isl (f x)) (walk_items w))"

definition one_row_each ::
  "(path \<rightharpoonup> row list) \<Rightarrow> path \<Rightarrow> row \<Rightarrow> ('a \<Rightarrow> error + row) \<Rightarrow> 'a list \<Rightarrow> bool" where
  "one_row_each F p hdr f xs =
     (case F p of
        Some (h # rows) \<Rightarrow> h = hdr \<and> length rows = length xs \<and> map Inr rows = map f xs
      | _ \<Rightarrow> False)"

text \<open>
  The items a loop over a listing runs its body on: those before the first failure, and
  the item that fails, if the failure is an item's.
\<close>

fun walk_done :: "('a \<Rightarrow> error + 'b) \<Rightarrow> 'a walk \<Rightarrow> 'a list" where
  "walk_done f End = []"
| "walk_done f (Raise e) = []"
| "walk_done f (Page [] w) = walk_done f w"
| "walk_done f (Page (x # xs) w) =
     (case f x of Inl e \<Rightarrow> [x] | Inr y \<Rightarrow> x # walk_done f (Page xs w))"

text \<open>
  The client's answers for one listed project or group \<open>x\<close>, \<open>get\<close> being the detail fetch:
  \<open>x\<close> is fine when its detail is fetched and the member listing of the chosen scope is
  read to its end; it fails with \<open>e\<close> when the detail fetch raises \<open>e\<close>, or when the detail
  is fetched and the member listing raises \<open>e\<close>. The requests made for \<open>x\<close> are the detail
  fetch, once, and, when that answers, the member listing, once. The same for a listed
  user, who has no member listing.
\<close>

definition members_of :: "string \<Rightarrow> resource \<Rightarrow> obj walk" where
  "members_of members_scope res = (if members_scope = ''all'' then members_all res else members res)"

definition resource_ok :: "(pyval \<Rightarrow> error + resource) \<Rightarrow> string \<Rightarrow> obj \<Rightarrow> bool" where
  "resource_ok get members_scope x =
     (case x ''id'' of
        None \<Rightarrow> False
      | Some xid \<Rightarrow>
          (case get xid of
             Inl e \<Rightarrow> False
           | Inr res \<Rightarrow> attrs res ''id'' \<noteq> None \<and> walk_error (members_of members_scope res) = None))"

definition resource_fails ::
  "(pyval \<Rightarrow> error + resource) \<Rightarrow> string \<Rightarrow> obj \<Rightarrow> error \<Rightarrow> bool" where
  "resource_fails get members_scope x e =
     (case x ''id'' of
        None \<Rightarrow> False
      | Some xid \<Rightarrow>
          (case get xid of
             Inl e' \<Rightarrow> e' = e
           | Inr res \<Rightarrow> attrs res ''id'' \<noteq> None \<and> walk_error (members_of members_scope res) = Some e))"

definition resource_calls ::
  "(pyval \<Rightarrow> api_call) \<Rightarrow> (pyval \<Rightarrow> error + resource) \<Rightarrow> string \<Rightarrow> obj \<Rightarrow> api_call list" where
  "resource_calls get_call get members_scope x =
     (case x ''id'' of
        None \<Rightarrow> []
      | Some xid \<Rightarrow>
          (case get xid of
             Inl e \<Rightarrow> [get_call xid]
           | Inr res \<Rightarrow>
               [get_call xid, if members_scope = ''all'' then MembersAllList else MembersList]))"

definition user_ok :: "(pyval \<Rightarrow> error + obj) \<Rightarrow> obj \<Rightarrow> bool" where
  "user_ok get x =
     (case x ''id'' of
        None \<Rightarrow> False
      | Some xid \<Rightarrow> (case get xid of Inl e \<Rightarrow> False | Inr user \<Rightarrow> user ''id'' \<noteq> None))"

definition user_fails :: "(pyval \<Rightarrow> error + obj) \<Rightarrow> obj \<Rightarrow> error \<Rightarrow> bool" where
  "user_fails get x e = (case x ''id'' of None \<Rightarrow> False | Some xid \<Rightarrow> get xid = Inl e)"

definition user_calls :: "obj \<Rightarrow> api_call list" where
  "user_calls x = (case x ''id'' of None \<Rightarrow> [] | Some xid \<Rightarrow> [UsersGet xid])"

text \<open>
  A listing whose every page is fetched and whose every item is fine. And a listing that
  fails with \<open>e\<close> after the items \<open>xs\<close>, which are fine: either \<open>bad\<close> is empty, \<open>xs\<close> are all
  the items the listing yields and its next page fetch raises \<open>e\<close>; or \<open>bad\<close> is the one
  item that follows \<open>xs\<close> in the listing, and it fails with \<open>e\<close>.
\<close>

definition listing_ok :: "('a \<Rightarrow> bool) \<Rightarrow> 'a walk \<Rightarrow> bool" where
  "listing_ok ok w = (walk_error w = None \<and> list_all ok (walk_items w))"

definition listing_fails ::
  "('a \<Rightarrow> bool) \<Rightarrow> ('a \<Rightarrow> error \<Rightarrow> bool) \<Rightarrow> 'a walk \<Rightarrow> 'a list \<Rightarrow> 'a list \<Rightarrow> error \<Rightarrow> bool" where
  "listing_fails ok fails w xs bad e =
     (list_all ok xs \<and>
      (case bad of
         [] \<Rightarrow> walk_items w = xs \<and> walk_error w = Some e
       | x # others \<Rightarrow>
           others = [] \<and> take (Suc (length xs)) (walk_items w) = xs @ [x] \<and> fails x e))"

text \<open>The rows written for items that are fine.\<close>

definition rows_of :: "('a \<Rightarrow> (error + row) \<times> api_call list) \<Rightarrow> 'a list \<Rightarrow> row list" where
  "rows_of fetch xs = map (\<lambda>x. projr (fst (fetch x))) xs"

text \<open>
  The client calls of a stage, and of a run whose connection is validated: the listing
  call, then the calls of the loop body for each item it runs on; no stage after a
  failure.
\<close>

definition project_stage_calls :: "gitlab \<Rightarrow> string \<Rightarrow> bool \<Rightarrow> api_call list" where
  "project_stage_calls gl members_scope archived =
     ProjectsList archived #
     concat (map (\<lambda>p. snd (fetch_project gl members_scope p))
       (walk_done (\<lambda>p. fst (fetch_project gl members_scope p)) (projects_list gl archived)))"

definition group_stage_calls :: "gitlab \<Rightarrow> string \<Rightarrow> api_call list" where
  "group_stage_calls gl members_scope =
     GroupsList #
     concat (map (\<lambda>g. snd (fetch_group gl members_scope g))
       (walk_done (\<lambda>g. fst (fetch_group gl members_scope g)) (groups_list gl)))"

definition user_stage_calls :: "gitlab \<Rightarrow> api_call list" where
  "user_stage_calls gl =
     UsersList #
     concat (map (\<lambda>u. snd (fetch_user gl u)) (walk_done (\<lambda>u. fst (fetch_user gl u)) (users_list gl)))"

definition run_calls :: "gitlab \<Rightarrow> string \<Rightarrow> bool \<Rightarrow> api_call list" where
  "run_calls gl members_scope include_archived =
     Auth # project_stage_calls gl members_scope False @
     (case snd (project_rows gl members_scope False) of
        Some e \<Rightarrow> []
      | None \<Rightarrow>
          (if include_archived then project_stage_calls gl members_scope True else []) @
          (case (if include_archived then snd (project_rows gl members_scope True) else None) of
             Some e \<Rightarrow> []
           | None \<Rightarrow>
               group_stage_calls gl members_scope @
               (case snd (group_rows gl members_scope) of
                  Some e \<Rightarrow> []
                | None \<Rightarrow> user_stage_calls gl)))"

text \<open>
  A run past the configuration checks and the validation of the connection, with its
  client, its member scope and its output directory.
\<close>

definition validated_run :: "env \<Rightarrow> args \<Rightarrow> gitlab \<Rightarrow> string \<Rightarrow> string \<Rightarrow> bool" where
  "validated_run ev a gl members_scope d =
     (arg_url a \<noteq> [] \<and> arg_token a \<noteq> [] \<and> gl = client ev a \<and> auth gl = None \<and>
      members_scope = arg_members_scope a \<and> d = out_dir ev a)"

section \<open>Example data\<close>

definition alice :: obj where
  "alice = [''username'' \<mapsto> PyStr ''alice'', ''name'' \<mapsto> PyStr ''Alice A'', ''id'' \<mapsto> PyInt 7,
            ''access_level'' \<mapsto> PyInt 30]"

definition bob :: obj where
  "bob = [''name'' \<mapsto> PyStr ''bob'', ''id'' \<mapsto> PyInt 8, ''access_level'' \<mapsto> PyInt 10]"

definition nameless :: obj where
  "nameless = [''username'' \<mapsto> PyNone, ''name'' \<mapsto> PyStr '''', ''id'' \<mapsto> PyInt 42,
               ''access_level'' \<mapsto> PyInt 40]"

definition carol :: obj where
  "carol = [''username'' \<mapsto> PyStr ''carol'', ''access_level'' \<mapsto> PyNone]"

text \<open>
  A server with three active projects on two pages, no archived project, one group and no
  visible user. Then servers that fail: one whose second group fails to list its direct
  members on the second page, one whose second page of projects cannot be fetched, one
  whose listing of archived projects fails at once, one that refuses the detail of the
  second user, and one that has lost the group it lists.
\<close>

definition stub :: "int \<Rightarrow> obj" where
  "stub i = [''id'' \<mapsto> PyInt i]"

definition demo_resource :: "int \<Rightarrow> resource" where
  "demo_resource i =
     \<lparr>attrs = [''id'' \<mapsto> PyInt i, ''name'' \<mapsto> PyStr ''demo'', ''archived'' \<mapsto> PyBool False],
      members_all = Page [alice, bob] (Page [bob] End),
      members = Page [alice] End\<rparr>"

definition demo_gl :: gitlab where
  "demo_gl =
     \<lparr>auth = None,
      projects_list = (\<lambda>archived. if archived then Page [] End
                                   else Page [stub 1, stub 2] (Page [stub 3] End)),
      projects_get = (\<lambda>v. case v of PyInt i \<Rightarrow> Inr (demo_resource i)
                                    | _ \<Rightarrow> Inl (GitlabError ''404 Not Found'')),
      groups_list = Page [stub 5] End,
      groups_get = (\<lambda>v. case v of PyInt i \<Rightarrow> Inr (demo_resource i)
                                  | _ \<Rightarrow> Inl (GitlabError ''404 Not Found'')),
      users_list = Page [] End,
      users_get = (\<lambda>v. Inr [''id'' \<mapsto> v, ''username'' \<mapsto> PyStr ''root''])\<rparr>"

definition flaky_gl :: gitlab where
  "flaky_gl =
     demo_gl\<lparr>groups_list := Page [stub 5] (Page [stub 6] End),
             groups_get := (\<lambda>v. if v = PyInt 6
                                 then Inr ((demo_resource 6)
                                        \<lparr>members := Page [alice] (Raise (GitlabError ''429 Too Many Requests''))\<rparr>)
                                 else groups_get demo_gl v)\<rparr>"

definition paged_out_gl :: gitlab where
  "paged_out_gl =
     demo_gl\<lparr>projects_list :=
       (\<lambda>archived. if archived then Page [] End
                    else Page [stub 1, stub 2] (Raise (GitlabError ''502 Bad Gateway'')))\<rparr>"

definition archived_down_gl :: gitlab where
  "archived_down_gl =
     demo_gl\<lparr>projects_list :=
       (\<lambda>archived. if archived then Raise (GitlabError ''502 Bad Gateway'')
                    else Page [stub 1, stub 2] (Page [stub 3] End))\<rparr>"

definition locked_gl :: gitlab where
  "locked_gl =
     demo_gl\<lparr>users_list := Page [stub 1] (Page [stub 2] End),
             users_get := (\<lambda>v. if v = PyInt 1 then Inr [''id'' \<mapsto> v, ''username'' \<mapsto> PyStr ''root'']
                                 else Inl (GitlabError ''403 Forbidden''))\<rparr>"

definition gone_gl :: gitlab where
  "gone_gl = demo_gl\<lparr>groups_get := (\<lambda>v. Inl (GitlabError ''404 Not Found''))\<rparr>"

definition demo_env :: "gitlab \<Rightarrow> env" where
  "demo_env gl =
     \<lparr>gitlab_client = (\<lambda>url token ssl_verify. gl),
      utc_stamp = ''20260101_000000_UTC'',
      resolve = (\<lambda>d. ''/work/'' @ d)\<rparr>"

definition demo_args :: args where
  "demo_args =
     \<lparr>arg_url = ''https://gitlab.example.com'', arg_token = ''glpat-123'', arg_outdir = ''out'',
      arg_include_archived = False, arg_members_scope = ''direct'', arg_no_ssl_verify = False,
      arg_sleep = 0\<rparr>"

definition archived_args :: args where
  "archived_args = demo_args\<lparr>arg_include_archived := True\<rparr>"

definition world0 :: world where
  "world0 = \<lparr>files = Map.empty, dirs = {}, stderr = [], stdout = [], api_calls = [], slept = 0\<rparr>"

section \<open>Properties of the pure part\<close>

lemma str_nat_digit: "n < 10 \<Longrightarrow> str_nat n = [digit_char n]"
  by (simp add: str_nat.simps)

lemma for_walk_append:
  "for_walk (\<lambda>m acc. (Inr (), acc @ [f m])) w acc =
     (case walk_error w of None \<Rightarrow> Inr () | Some e \<Rightarrow> Inl e, acc @ map f (walk_items w))"
proof (induction w arbitrary: acc)
  case End
  show ?case by simp
next
  case (Raise e)
  show ?case by simp
next
  case (Page xs w)
  show ?case
  proof (induction xs arbitrary: acc)
    case Nil
    show ?case using Page.IH by simp
  next
    case (Cons x xs)
    show ?case using Cons.IH [of "acc @ [f x]"] by simp
  qed
qed

lemma format_members_ok:
  "walk_error w = None \<Longrightarrow>
   format_members w = Inr (join '';'' (sorted_list_of_set (set (map member_part (walk_items w)))))"
  by (simp add: format_members_def for_walk_append)

lemma format_members_error:
  "walk_error w = Some e \<Longrightarrow> format_members w = Inl e"
  by (simp add: format_members_def for_walk_append)

lemma digit_val_digit_char: "d < 10 \<Longrightarrow> digit_val (digit_char d) = d"
proof -
  assume "d < 10"
  then have "d \<in> {0, 1, 2, 3, 4, 5, 6, 7, 8, 9}" by auto
  then show ?thesis by (auto simp: digit_val_def digit_char_def)
qed

text \<open>\<open>str_nat\<close> writes the decimal numeral of its argument: reading it back gives the number.\<close>

lemma nat_of_digits_str_nat: "nat_of_digits (str_nat n) = n"
proof (induction n rule: str_nat.induct)
  case (1 n)
  show ?case
  proof (cases "n < 10")
    case True
    then show ?thesis by (simp add: str_nat_digit nat_of_digits_def digit_val_digit_char)
  next
    case False
    then have "str_nat n = str_nat (n div 10) @ [digit_char (n mod 10)]"
      by (subst str_nat.simps) simp
    moreover have "nat_of_digits (str_nat (n div 10)) = n div 10" using 1 False by simp
    ultimately show ?thesis
      by (simp add: nat_of_digits_def digit_val_digit_char)
  qed
qed

text \<open>
  A Python \<^verbatim>\<open>set\<close> hands its elements to \<^verbatim>\<open>sorted\<close> in an order of its own; whatever that order,
  the sorted list is the same.
\<close>

lemma sorted_of_any_enumeration:
  "distinct ys \<Longrightarrow> set ys = A \<Longrightarrow> sort ys = sorted_list_of_set A"
  by (metis sorted_list_of_set_sort_remdups distinct_remdups_id)

lemma summary_entries:
  "sorted (sorted_list_of_set (set ps)) \<and> distinct (sorted_list_of_set (set ps)) \<and>
   set (sorted_list_of_set (set ps)) = set ps"
  by simp

lemma count_list_distinct: "distinct xs \<Longrightarrow> x \<in> set xs \<Longrightarrow> count_list xs x = 1"
  by (induction xs) auto

lemma member_once:
  "t \<in> set ps \<Longrightarrow> count_list (sorted_list_of_set (set ps)) t = 1"
  by (rule count_list_distinct) simp_all

lemma part_alice: "member_part alice = ''alice:Developer''"
  by (simp add: alice_def member_part_def member_ident_def safe_get_def py_or_def
      access_level_name_def ACCESS_LEVELS_def)

lemma part_bob: "member_part bob = ''bob:Guest''"
  by (simp add: bob_def member_part_def member_ident_def safe_get_def py_or_def
      access_level_name_def ACCESS_LEVELS_def)

lemma sorted_alice_bob:
  "sorted_list_of_set {''alice:Developer'', ''bob:Guest''} = [''alice:Developer'', ''bob:Guest'']"
proof -
  have "sorted_list_of_set (set [''alice:Developer'', ''bob:Guest''])
          = [''alice:Developer'', ''bob:Guest'']"
    by code_simp
  then show ?thesis by simp
qed

section \<open>The member normalizer\<close>

text \<open>
  Claim C1. Two member listings that are read to the end without a failure and give the
  same set of \<open>identity:role\<close> parts give the same summary, whatever the order, the
  repetitions and the paging of the members; the summary is the parts, each once, in
  ascending order, joined with \<open>;\<close>.
\<close>

theorem format_members_order_independent:
  assumes "walk_error w1 = None" and "walk_error w2 = None"
    and "set (map member_part (walk_items w1)) = set (map member_part (walk_items w2))"
  shows "format_members w1 = format_members w2 \<and>
         (\<exists>ts. format_members w1 = Inr (join '';'' ts) \<and> sorted ts \<and> distinct ts \<and>
               set ts = set (map member_part (walk_items w1)))"
proof -
  let ?ts = "sorted_list_of_set (set (map member_part (walk_items w1)))"
  have "format_members w1 = Inr (join '';'' ?ts)"
    using assms(1) by (rule format_members_ok)
  moreover have "format_members w2 = Inr (join '';'' ?ts)"
    using format_members_ok [OF assms(2)] assms(3) by simp
  moreover have "sorted ?ts \<and> distinct ?ts \<and> set ?ts = set (map member_part (walk_items w1))"
    by (rule summary_entries)
  ultimately show ?thesis by auto
qed

theorem format_members_order_independent_witness:
  "walk_error (Page [alice, bob] End) = None \<and>
   walk_error (Page [bob] (Page [bob, alice] End)) = None \<and>
   set (map member_part (walk_items (Page [alice, bob] End))) =
     set (map member_part (walk_items (Page [bob] (Page [bob, alice] End)))) \<and>
   format_members (Page [alice, bob] End) = format_members (Page [bob] (Page [bob, alice] End)) \<and>
   format_members (Page [alice, bob] End) = Inr ''alice:Developer;bob:Guest''"
proof -
  have h1: "walk_error (Page [alice, bob] End) = None" by simp
  have h2: "walk_error (Page [bob] (Page [bob, alice] End)) = None" by simp
  have h3: "set (map member_part (walk_items (Page [alice, bob] End))) =
     set (map member_part (walk_items (Page [bob] (Page [bob, alice] End))))"
    by (auto simp: part_alice part_bob)
  have "format_members (Page [alice, bob] End) = Inr ''alice:Developer;bob:Guest''"
    by (simp add: format_members_ok part_alice part_bob sorted_alice_bob)
  with format_members_order_independent [OF h1 h2 h3] h1 h2 h3 show ?thesis by blast
qed

text \<open>
  Claim C4. When a member listing, read to the end without a failure, holds two or more
  members with the same part \<open>t\<close>, the summary is the join of its entries, and \<open>t\<close> occurs
  exactly once among the entries: equal parts collapse to one entry.
\<close>

theorem format_members_dedup:
  assumes "walk_error w = None"
    and "2 \<le> count_list (map member_part (walk_items w)) t"
  shows "format_members w =
           Inr (join '';'' (sorted_list_of_set (set (map member_part (walk_items w))))) \<and>
         count_list (sorted_list_of_set (set (map member_part (walk_items w)))) t = 1"
proof -
  have "t \<in> set (map member_part (walk_items w))"
    using assms(2) by (metis count_list_0_iff not_numeral_le_zero)
  then show ?thesis using assms(1) by (simp add: format_members_ok member_once del: set_map)
qed

theorem format_members_dedup_witness:
  "walk_error (Page [bob] (Page [bob, alice] End)) = None \<and>
   2 \<le> count_list (map member_part (walk_items (Page [bob] (Page [bob, alice] End)))) ''bob:Guest'' \<and>
   format_members (Page [bob] (Page [bob, alice] End)) = Inr ''alice:Developer;bob:Guest'' \<and>
   count_list [''alice:Developer'', ''bob:Guest''] ''bob:Guest'' = 1"
proof -
  have h1: "walk_error (Page [bob] (Page [bob, alice] End)) = None" by simp
  have h2: "2 \<le> count_list (map member_part (walk_items (Page [bob] (Page [bob, alice] End)))) ''bob:Guest''"
    by (simp add: part_alice part_bob)
  have e: "sorted_list_of_set (set (map member_part (walk_items (Page [bob] (Page [bob, alice] End)))))
         = [''alice:Developer'', ''bob:Guest'']"
    using sorted_alice_bob by (simp add: part_alice part_bob insert_commute)
  from format_members_dedup [OF h1 h2] h1 h2 show ?thesis unfolding e by simp
qed

text \<open>
  Read back as fields between separators, the summary gives its entries again when no part
  contains a \<open>;\<close>, so that the part occurs once among the fields too.
\<close>

lemma split_on_no_sep: "c \<notin> set t \<Longrightarrow> split_on c t = [t]"
  by (induction t) auto

lemma split_on_append:
  "c \<notin> set t \<Longrightarrow> split_on c (t @ c # s) = t # split_on c s"
  by (induction t) auto

lemma split_on_join:
  "ts \<noteq> [] \<Longrightarrow> \<forall>t\<in>set ts. c \<notin> set t \<Longrightarrow> split_on c (join [c] ts) = ts"
proof (induction "[c]" ts rule: join.induct)
  case 1
  then show ?case by simp
next
  case (2 x)
  then show ?case by (simp add: split_on_no_sep)
next
  case (3 x y ys)
  then show ?case by (simp add: split_on_append)
qed

lemma format_members_fields:
  assumes "walk_error w = None" and "t \<in> set (map member_part (walk_items w))"
    and "\<forall>p\<in>set (map member_part (walk_items w)). CHR '';'' \<notin> set p"
  shows "\<exists>s. format_members w = Inr s \<and> count_list (split_on CHR '';'' s) t = 1"
proof -
  let ?ts = "sorted_list_of_set (set (map member_part (walk_items w)))"
  have ne: "?ts \<noteq> []" using assms(2) by (metis empty_iff empty_set summary_entries)
  have "\<forall>p\<in>set ?ts. CHR '';'' \<notin> set p" using assms(3) by (simp del: set_map)
  from split_on_join [OF ne this] have "split_on CHR '';'' (join '';'' ?ts) = ?ts" .
  moreover have "count_list ?ts t = 1" using assms(2) by (rule member_once)
  ultimately show ?thesis using format_members_ok [OF assms(1)] by simp
qed

text \<open>A display name that contains the separator: the fields of the summary are then not its entries.\<close>

lemma separator_in_name:
  "format_members (Page [[''username'' \<mapsto> PyStr ''a'', ''access_level'' \<mapsto> PyInt 10],
                         [''name'' \<mapsto> PyStr ''a:Guest;a'', ''access_level'' \<mapsto> PyInt 10]] End)
     = Inr ''a:Guest;a:Guest;a:Guest''"
proof -
  have "sorted_list_of_set (set [''a:Guest'', ''a:Guest;a:Guest'']) = [''a:Guest'', ''a:Guest;a:Guest'']"
    by code_simp
  then show ?thesis
    by (simp add: format_members_ok member_part_def member_ident_def safe_get_def py_or_def
        access_level_name_def ACCESS_LEVELS_def)
qed

text \<open>
  Claim C3. The identity of a member is its username when that is a non-empty string;
  else, the username being absent or empty, its name when that is a non-empty string;
  else \<open>user_id_\<close> followed by the member's id (in decimal when the id is an integer). The
  part emitted is the identity, a colon, and the role name of the access level.
\<close>

theorem member_part_spec:
  "(m ''username'' = Some (PyStr u) \<and> u \<noteq> [] \<longrightarrow> member_ident m = u) \<and>
   (\<not> truthy (safe_get m ''username'' (PyStr '''')) \<and> m ''name'' = Some (PyStr n) \<and> n \<noteq> []
      \<longrightarrow> member_ident m = n) \<and>
   (\<not> truthy (safe_get m ''username'' (PyStr '''')) \<and> \<not> truthy (safe_get m ''name'' (PyStr ''''))
      \<longrightarrow> member_ident m = ''user_id_'' @ py_str (safe_get m ''id'' (PyStr ''''))) \<and>
   (m ''id'' = Some (PyInt i) \<longrightarrow> py_str (safe_get m ''id'' (PyStr '''')) = str_int i) \<and>
   member_part m = member_ident m @ '':'' @ access_level_name (safe_get m ''access_level'' PyNone)"
  by (simp add: member_part_def member_ident_def safe_get_def py_or_def)

theorem member_part_spec_witness:
  "member_ident alice = ''alice'' \<and> member_part alice = ''alice:Developer'' \<and>
   member_ident bob = ''bob'' \<and> member_part bob = ''bob:Guest'' \<and>
   member_ident nameless = ''user_id_42'' \<and> member_part nameless = ''user_id_42:Maintainer''"
proof -
  have a: "alice ''username'' = Some (PyStr ''alice'') \<and> ''alice'' \<noteq> []"
    by (simp add: alice_def)
  have b: "\<not> truthy (safe_get bob ''username'' (PyStr '''')) \<and>
           bob ''name'' = Some (PyStr ''bob'') \<and> ''bob'' \<noteq> []"
    by (simp add: bob_def safe_get_def)
  have c: "\<not> truthy (safe_get nameless ''username'' (PyStr '''')) \<and>
           \<not> truthy (safe_get nameless ''name'' (PyStr ''''))"
    by (simp add: nameless_def safe_get_def)
  have ci: "nameless ''id'' = Some (PyInt 42)" by (simp add: nameless_def)
  have s: "str_int 42 = ''42''" by (simp add: str_int_def str_nat.simps digit_char_def)
  have la: "access_level_name (safe_get alice ''access_level'' PyNone) = ''Developer''"
    by (simp add: alice_def safe_get_def access_level_name_def ACCESS_LEVELS_def)
  have lb: "access_level_name (safe_get bob ''access_level'' PyNone) = ''Guest''"
    by (simp add: bob_def safe_get_def access_level_name_def ACCESS_LEVELS_def)
  have lc: "access_level_name (safe_get nameless ''access_level'' PyNone) = ''Maintainer''"
    by (simp add: nameless_def safe_get_def access_level_name_def ACCESS_LEVELS_def)
  have ia: "member_ident alice = ''alice''"
    using member_part_spec [of alice "''alice''"] a by blast
  have ib: "member_ident bob = ''bob''"
    using member_part_spec [of bob _ "''bob''"] b by blast
  have ic: "member_ident nameless = ''user_id_42''"
    using member_part_spec [of nameless _ _ 42] c ci s by simp
  show ?thesis
    using member_part_spec [of alice] member_part_spec [of bob] member_part_spec [of nameless]
      ia ib ic la lb lc by simp
qed

text \<open>
  Claim C9. A member with no usable username and name and without an \<open>id\<close> attribute has
  the identity \<open>user_id_\<close>, with nothing after the underscore; a member whose access level
  is absent (or null) gives a part that ends with the colon, the role being empty.
\<close>

theorem member_part_missing_fields:
  "(\<not> truthy (safe_get m ''username'' (PyStr '''')) \<and> \<not> truthy (safe_get m ''name'' (PyStr '''')) \<and>
      m ''id'' = None \<longrightarrow> member_ident m = ''user_id_'') \<and>
   (m ''access_level'' = None \<or> m ''access_level'' = Some PyNone
      \<longrightarrow> member_part m = member_ident m @ '':'')"
  by (auto simp: member_part_def member_ident_def safe_get_def py_or_def access_level_name_def)

theorem member_part_missing_fields_witness:
  "member_ident Map.empty = ''user_id_'' \<and> member_part Map.empty = ''user_id_:'' \<and>
   member_part carol = ''carol:'' \<and> member_part [''username'' \<mapsto> PyStr ''alice''] = ''alice:''"
proof -
  have e: "\<not> truthy (safe_get Map.empty ''username'' (PyStr '''')) \<and>
           \<not> truthy (safe_get Map.empty ''name'' (PyStr '''')) \<and> (Map.empty :: obj) ''id'' = None"
    by (simp add: safe_get_def)
  have ie: "member_ident Map.empty = ''user_id_''"
    using member_part_missing_fields [of Map.empty] e by blast
  have pe: "member_part Map.empty = member_ident Map.empty @ '':''"
    using member_part_missing_fields [of Map.empty] by simp
  have c: "carol ''access_level'' = Some PyNone" by (simp add: carol_def)
  have pc: "member_part carol = member_ident carol @ '':''"
    using member_part_missing_fields [of carol] c by blast
  have ic: "member_ident carol = ''carol''"
    by (simp add: carol_def member_ident_def safe_get_def py_or_def)
  have pa: "member_part [''username'' \<mapsto> PyStr ''alice'']
              = member_ident [''username'' \<mapsto> PyStr ''alice''] @ '':''"
    using member_part_missing_fields [of "[''username'' \<mapsto> PyStr ''alice'']"] by simp
  have ia: "member_ident [''username'' \<mapsto> PyStr ''alice''] = ''alice''"
    by (simp add: member_ident_def safe_get_def py_or_def)
  show ?thesis using ie pe pc ic pa ia by simp
qed

text \<open>An \<open>id\<close> that is present but null is formatted as \<^verbatim>\<open>None\<close>.\<close>

lemma member_ident_null_id:
  "\<not> truthy (safe_get m ''username'' (PyStr '''')) \<Longrightarrow>
   \<not> truthy (safe_get m ''name'' (PyStr '''')) \<Longrightarrow> m ''id'' = Some PyNone \<Longrightarrow>
   member_ident m = ''user_id_None''"
  by (simp add: member_ident_def safe_get_def py_or_def)

section \<open>The access-level resolver\<close>

text \<open>
  Claim C2. The codes 10, 20, 30, 40 and 50 resolve to Guest, Reporter, Developer,
  Maintainer and Owner; every other integer resolves to its decimal string; \<^verbatim>\<open>None\<close>
  resolves to the empty string. \<open>access_level_name\<close> has no failing branch.
\<close>

theorem access_level_name_spec:
  "access_level_name (PyInt 10) = ''Guest'' \<and>
   access_level_name (PyInt 20) = ''Reporter'' \<and>
   access_level_name (PyInt 30) = ''Developer'' \<and>
   access_level_name (PyInt 40) = ''Maintainer'' \<and>
   access_level_name (PyInt 50) = ''Owner'' \<and>
   (\<forall>n. n \<notin> {10, 20, 30, 40, 50} \<longrightarrow> access_level_name (PyInt n) = str_int n) \<and>
   access_level_name PyNone = ''''"
  by (simp add: access_level_name_def ACCESS_LEVELS_def)

theorem access_level_name_spec_witness:
  "(60::int) \<notin> {10, 20, 30, 40, 50} \<and> access_level_name (PyInt 60) = ''60''"
proof -
  have h: "(60::int) \<notin> {10, 20, 30, 40, 50}" by simp
  have "access_level_name (PyInt 60) = str_int 60"
    using access_level_name_spec h by blast
  moreover have "str_int 60 = ''60''"
    by (simp add: str_int_def str_nat.simps digit_char_def)
  ultimately show ?thesis using h by simp
qed

section \<open>Loops over listings and the exporters\<close>


lemma for_walk_outcome:
  assumes "\<And>x s. fst (body x s) = (case f x of Inl e \<Rightarrow> Inl e | Inr y \<Rightarrow> Inr ())"
  shows "fst (for_walk body w s) = outcome (snd (walk_run f w))"
  using assms
proof (induction body w s rule: for_walk.induct)
  case (4 body x xs w s)
  show ?case
  proof (cases "body x s")
    case (Pair r s')
    then have r: "r = (case f x of Inl e \<Rightarrow> Inl e | Inr y \<Rightarrow> Inr ())"
      using "4.prems" [of x s] by simp
    show ?thesis
    proof (cases "f x")
      case (Inl e)
      with r Pair show ?thesis by (simp add: outcome_def)
    next
      case (Inr y)
      with r have "r = Inr ()" by simp
      with "4.IH" [OF Pair [symmetric] _ "4.prems"] Pair Inr show ?thesis
        by (simp split: prod.splits)
    qed
  qed
qed (simp_all add: outcome_def)

lemma for_walk_view:
  assumes "\<And>x s. fst (body x s) = (case f x of Inl e \<Rightarrow> Inl e | Inr y \<Rightarrow> Inr ())"
    and "\<And>x s. V (snd (body x s)) = (case f x of Inl e \<Rightarrow> V s | Inr y \<Rightarrow> upd y (V s))"
  shows "V (snd (for_walk body w s)) = fold upd (fst (walk_run f w)) (V s)"
  using assms
proof (induction body w s rule: for_walk.induct)
  case (4 body x xs w s)
  show ?case
  proof (cases "body x s")
    case (Pair r s')
    then have r: "r = (case f x of Inl e \<Rightarrow> Inl e | Inr y \<Rightarrow> Inr ())"
      using "4.prems"(1) [of x s] by simp
    from Pair have v: "V s' = (case f x of Inl e \<Rightarrow> V s | Inr y \<Rightarrow> upd y (V s))"
      using "4.prems"(2) [of x s] by simp
    show ?thesis
    proof (cases "f x")
      case (Inl e)
      with r v Pair show ?thesis by simp
    next
      case (Inr y)
      with r have "r = Inr ()" by simp
      with "4.IH" [OF Pair [symmetric] _ "4.prems"] v Pair Inr show ?thesis
        by (simp split: prod.splits)
    qed
  qed
qed simp_all

lemma for_walk_preserves:
  assumes "\<And>x s. V (snd (body x s)) = V s"
  shows "V (snd (for_walk body w s)) = V s"
  using assms
proof (induction body w s rule: for_walk.induct)
  case (4 body x xs w s)
  show ?case
  proof (cases "body x s")
    case (Pair r s')
    then have "V s' = V s" using "4.prems" [of x s] by simp
    with "4.IH" [OF Pair [symmetric] _ "4.prems"] Pair show ?thesis
      by (cases r) simp_all
  qed
qed simp_all


lemma world_simps [simp]:
  "files (eprint m st) = files st" "dirs (eprint m st) = dirs st" "stdout (eprint m st) = stdout st"
  "api_calls (eprint m st) = api_calls st" "stderr (eprint m st) = stderr st @ [m]"
  "files (print m st) = files st" "dirs (print m st) = dirs st" "stdout (print m st) = stdout st @ [m]"
  "api_calls (print m st) = api_calls st" "stderr (print m st) = stderr st"
  "files (api c st) = files st" "dirs (api c st) = dirs st" "stdout (api c st) = stdout st"
  "api_calls (api c st) = api_calls st @ [c]" "stderr (api c st) = stderr st"
  "files (sleep_if t st) = files st" "dirs (sleep_if t st) = dirs st" "stdout (sleep_if t st) = stdout st"
  "api_calls (sleep_if t st) = api_calls st" "stderr (sleep_if t st) = stderr st"
  "files (open_w p st) = (files st)(p \<mapsto> [])" "dirs (open_w p st) = dirs st"
  "stdout (open_w p st) = stdout st"
  "api_calls (open_w p st) = api_calls st" "stderr (open_w p st) = stderr st"
  "files (write_row p r st) = add_row p r (files st)" "dirs (write_row p r st) = dirs st"
  "stdout (write_row p r st) = stdout st"
  "api_calls (write_row p r st) = api_calls st" "stderr (write_row p r st) = stderr st"
  "files (mkdir d st) = files st" "dirs (mkdir d st) = insert d (dirs st)"
  "stdout (mkdir d st) = stdout st"
  "api_calls (mkdir d st) = api_calls st" "stderr (mkdir d st) = stderr st"
  by (simp_all add: eprint_def print_def api_def sleep_if_def open_w_def write_row_def mkdir_def
      add_row_def)

lemma fold_add_row:
  "F p = Some c \<Longrightarrow> fold (add_row p) rs F = F(p \<mapsto> c @ rs)"
proof (induction rs arbitrary: F c)
  case Nil
  then show ?case by (auto simp: fun_upd_idem)
next
  case (Cons r rs)
  have step: "add_row p r F = F(p \<mapsto> c @ [r])"
    using Cons.prems by (simp add: add_row_def)
  have "fold (add_row p) rs (F(p \<mapsto> c @ [r])) = (F(p \<mapsto> c @ [r]))(p \<mapsto> (c @ [r]) @ rs)"
    by (rule Cons.IH) simp
  then show ?case by (simp add: step)
qed

lemma export_shape:
  "(case iter_all w of
      Inl e \<Rightarrow> (Inl e, st)
    | Inr it \<Rightarrow>
        (case for_walk body it (0, st) of
           (Inl e, (c, st')) \<Rightarrow> (Inl e, st')
         | (Inr u, (c, st')) \<Rightarrow> (Inr (), fin st')))
   = (let r = for_walk body w (0::int, st)
      in (fst r, (case fst r of Inl e \<Rightarrow> snd (snd r) | Inr u \<Rightarrow> fin (snd (snd r)))))"
  by (cases w) (auto simp: iter_all_def Let_def split: prod.splits sum.splits)


lemma export_loop_fst:
  assumes "\<And>x s. fst (body x s) = (case f x of Inl e \<Rightarrow> Inl e | Inr y \<Rightarrow> Inr ())"
  shows "fst (case iter_all w of
      Inl e \<Rightarrow> (Inl e, st)
    | Inr it \<Rightarrow>
        (case for_walk body it (0::int, st) of
           (Inl e, (c, st')) \<Rightarrow> (Inl e, st')
         | (Inr u, (c, st')) \<Rightarrow> (Inr (), fin st'))) = outcome (snd (walk_run f w))"
  unfolding export_shape Let_def using for_walk_outcome [of body f w "(0, st)", OF assms]
  by simp

lemma export_loop_preserves:
  assumes "\<And>x s. V (snd (snd (body x s))) = V (snd s)" and "\<And>s. V (fin s) = V s"
  shows "V (snd (case iter_all w of
      Inl e \<Rightarrow> (Inl e, st)
    | Inr it \<Rightarrow>
        (case for_walk body it (0::int, st) of
           (Inl e, (c, st')) \<Rightarrow> (Inl e, st')
         | (Inr u, (c, st')) \<Rightarrow> (Inr (), fin st')))) = V st"
  unfolding export_shape Let_def
  using for_walk_preserves [of "\<lambda>s. V (snd s)" body w "(0, st)", OF assms(1)] assms(2)
  by (simp split: sum.splits)

lemma export_loop_files:
  assumes "\<And>x s. fst (body x s) = (case f x of Inl e \<Rightarrow> Inl e | Inr y \<Rightarrow> Inr ())"
    and "\<And>x s. files (snd (snd (body x s))) =
           (case f x of Inl e \<Rightarrow> files (snd s) | Inr y \<Rightarrow> add_row out y (files (snd s)))"
    and "\<And>s. files (fin s) = files s"
    and "files st out = Some c"
  shows "files (snd (case iter_all w of
      Inl e \<Rightarrow> (Inl e, st)
    | Inr it \<Rightarrow>
        (case for_walk body it (0::int, st) of
           (Inl e, (c, st')) \<Rightarrow> (Inl e, st')
         | (Inr u, (c, st')) \<Rightarrow> (Inr (), fin st')))) = (files st)(out \<mapsto> c @ fst (walk_run f w))"
proof -
  have "files (snd (snd (for_walk body w (0, st))))
          = fold (add_row out) (fst (walk_run f w)) (files (snd (0::int, st)))"
    by (rule for_walk_view [where V = "\<lambda>s. files (snd s)" and f = f]) (rule assms(1), rule assms(2))
  also have "\<dots> = (files st)(out \<mapsto> c @ fst (walk_run f w))"
    using assms(4) by (simp add: fold_add_row)
  finally show ?thesis
    unfolding export_shape Let_def using assms(3) by (simp split: sum.splits)
qed

lemma fetch_project_calls: "filter is_stage (snd (fetch_project gl sc p)) = []"
  by (simp add: fetch_project_def Let_def split: sum.splits)

lemma export_projects_body_fst:
  "fst (export_projects_body gl out sc sl p s) =
     (case fst (fetch_project gl sc p) of Inl e \<Rightarrow> Inl e | Inr y \<Rightarrow> Inr ())"
  by (cases s; cases "fetch_project gl sc p")
     (simp add: export_projects_body_def Let_def split: sum.splits)

lemma export_projects_body_files:
  "files (snd (snd (export_projects_body gl out sc sl p s))) =
     (case fst (fetch_project gl sc p) of
        Inl e \<Rightarrow> files (snd s) | Inr y \<Rightarrow> add_row out y (files (snd s)))"
  by (cases s; cases "fetch_project gl sc p")
     (simp add: export_projects_body_def Let_def split: sum.splits)

lemma export_projects_body_dirs:
  "dirs (snd (snd (export_projects_body gl out sc sl p s))) = dirs (snd s)"
  by (cases s; cases "fetch_project gl sc p")
     (simp add: export_projects_body_def Let_def split: sum.splits)

lemma export_projects_body_stdout:
  "stdout (snd (snd (export_projects_body gl out sc sl p s))) = stdout (snd s)"
  by (cases s; cases "fetch_project gl sc p")
     (simp add: export_projects_body_def Let_def split: sum.splits)

lemma export_projects_body_stages:
  "filter is_stage (api_calls (snd (snd (export_projects_body gl out sc sl p s))))
     = filter is_stage (api_calls (snd s))"
  using fetch_project_calls [of gl sc p]
  by (cases s; cases "fetch_project gl sc p")
     (simp add: export_projects_body_def Let_def split: sum.splits)

lemma export_projects_body_announce:
  "filter is_announce (stderr (snd (snd (export_projects_body gl out sc sl p s))))
     = filter is_announce (stderr (snd s))"
  by (cases s; cases "fetch_project gl sc p")
     (simp add: export_projects_body_def Let_def is_announce_def split: sum.splits)


lemma export_projects_fst:
  "fst (export_projects gl out a sc sl st) = outcome (snd (project_rows gl sc a))"
  unfolding export_projects_def Let_def project_rows_def
  by (rule export_loop_fst) (rule export_projects_body_fst)

lemma export_projects_files:
  "files (snd (export_projects gl out a sc sl st))
     = (files st)(out \<mapsto> header_row project_fieldnames # fst (project_rows gl sc a))"
  unfolding export_projects_def Let_def project_rows_def
  by (subst export_loop_files [where f = "\<lambda>p. fst (fetch_project gl sc p)" and out = out
        and c = "[header_row project_fieldnames]"])
     (simp_all add: export_projects_body_fst export_projects_body_files add_row_def)

lemma export_projects_dirs: "dirs (snd (export_projects gl out a sc sl st)) = dirs st"
  unfolding export_projects_def Let_def
  by (subst export_loop_preserves [where V = dirs]) (simp_all add: export_projects_body_dirs)

lemma export_projects_stdout: "stdout (snd (export_projects gl out a sc sl st)) = stdout st"
  unfolding export_projects_def Let_def
  by (subst export_loop_preserves [where V = stdout]) (simp_all add: export_projects_body_stdout)

lemma export_projects_stages:
  "filter is_stage (api_calls (snd (export_projects gl out a sc sl st)))
     = filter is_stage (api_calls st) @ [ProjectsList a]"
  unfolding export_projects_def Let_def
  by (subst export_loop_preserves [where V = "\<lambda>s. filter is_stage (api_calls s)"])
     (simp_all add: export_projects_body_stages)

lemma export_projects_announce:
  "filter is_announce (stderr (snd (export_projects gl out a sc sl st)))
     = filter is_announce (stderr st) @
         [''Exporting '' @ (if a then ''archived projects'' else ''active projects'')
            @ '' -> '' @ snd out @ '' ...'']"
  unfolding export_projects_def Let_def
  by (subst export_loop_preserves [where V = "\<lambda>s. filter is_announce (stderr s)"])
     (simp_all add: export_projects_body_announce is_announce_def)

lemma fetch_group_calls: "filter is_stage (snd (fetch_group gl sc g)) = []"
  by (simp add: fetch_group_def Let_def split: sum.splits)

lemma export_groups_body_fst:
  "fst (export_groups_body gl out sc sl g s) =
     (case fst (fetch_group gl sc g) of Inl e \<Rightarrow> Inl e | Inr y \<Rightarrow> Inr ())"
  by (cases s; cases "fetch_group gl sc g")
     (simp add: export_groups_body_def Let_def split: sum.splits)

lemma export_groups_body_files:
  "files (snd (snd (export_groups_body gl out sc sl g s))) =
     (case fst (fetch_group gl sc g) of
        Inl e \<Rightarrow> files (snd s) | Inr y \<Rightarrow> add_row out y (files (snd s)))"
  by (cases s; cases "fetch_group gl sc g")
     (simp add: export_groups_body_def Let_def split: sum.splits)

lemma export_groups_body_dirs:
  "dirs (snd (snd (export_groups_body gl out sc sl g s))) = dirs (snd s)"
  by (cases s; cases "fetch_group gl sc g")
     (simp add: export_groups_body_def Let_def split: sum.splits)

lemma export_groups_body_stdout:
  "stdout (snd (snd (export_groups_body gl out sc sl g s))) = stdout (snd s)"
  by (cases s; cases "fetch_group gl sc g")
     (simp add: export_groups_body_def Let_def split: sum.splits)

lemma export_groups_body_stages:
  "filter is_stage (api_calls (snd (snd (export_groups_body gl out sc sl g s))))
     = filter is_stage (api_calls (snd s))"
  using fetch_group_calls [of gl sc g]
  by (cases s; cases "fetch_group gl sc g")
     (simp add: export_groups_body_def Let_def split: sum.splits)

lemma export_groups_body_announce:
  "filter is_announce (stderr (snd (snd (export_groups_body gl out sc sl g s))))
     = filter is_announce (stderr (snd s))"
  by (cases s; cases "fetch_group gl sc g")
     (simp add: export_groups_body_def Let_def is_announce_def split: sum.splits)


lemma export_groups_fst:
  "fst (export_groups gl out sc sl st) = outcome (snd (group_rows gl sc))"
  unfolding export_groups_def Let_def group_rows_def
  by (rule export_loop_fst) (rule export_groups_body_fst)

lemma export_groups_files:
  "files (snd (export_groups gl out sc sl st))
     = (files st)(out \<mapsto> header_row group_fieldnames # fst (group_rows gl sc))"
  unfolding export_groups_def Let_def group_rows_def
  by (subst export_loop_files [where f = "\<lambda>g. fst (fetch_group gl sc g)" and out = out
        and c = "[header_row group_fieldnames]"])
     (simp_all add: export_groups_body_fst export_groups_body_files add_row_def)

lemma export_groups_dirs: "dirs (snd (export_groups gl out sc sl st)) = dirs st"
  unfolding export_groups_def Let_def
  by (subst export_loop_preserves [where V = dirs]) (simp_all add: export_groups_body_dirs)

lemma export_groups_stdout: "stdout (snd (export_groups gl out sc sl st)) = stdout st"
  unfolding export_groups_def Let_def
  by (subst export_loop_preserves [where V = stdout]) (simp_all add: export_groups_body_stdout)

lemma export_groups_stages:
  "filter is_stage (api_calls (snd (export_groups gl out sc sl st)))
     = filter is_stage (api_calls st) @ [GroupsList]"
  unfolding export_groups_def Let_def
  by (subst export_loop_preserves [where V = "\<lambda>s. filter is_stage (api_calls s)"])
     (simp_all add: export_groups_body_stages)

lemma export_groups_announce:
  "filter is_announce (stderr (snd (export_groups gl out sc sl st)))
     = filter is_announce (stderr st) @
         [''Exporting groups -> '' @ snd out @ '' ...'']"
  unfolding export_groups_def Let_def
  by (subst export_loop_preserves [where V = "\<lambda>s. filter is_announce (stderr s)"])
     (simp_all add: export_groups_body_announce is_announce_def)

lemma fetch_user_calls: "filter is_stage (snd (fetch_user gl u)) = []"
  by (simp add: fetch_user_def Let_def split: sum.splits)

lemma export_users_body_fst:
  "fst (export_users_body gl out sl u s) =
     (case fst (fetch_user gl u) of Inl e \<Rightarrow> Inl e | Inr y \<Rightarrow> Inr ())"
  by (cases s; cases "fetch_user gl u")
     (simp add: export_users_body_def Let_def split: sum.splits)

lemma export_users_body_files:
  "files (snd (snd (export_users_body gl out sl u s))) =
     (case fst (fetch_user gl u) of
        Inl e \<Rightarrow> files (snd s) | Inr y \<Rightarrow> add_row out y (files (snd s)))"
  by (cases s; cases "fetch_user gl u")
     (simp add: export_users_body_def Let_def split: sum.splits)

lemma export_users_body_dirs:
  "dirs (snd (snd (export_users_body gl out sl u s))) = dirs (snd s)"
  by (cases s; cases "fetch_user gl u")
     (simp add: export_users_body_def Let_def split: sum.splits)

lemma export_users_body_stdout:
  "stdout (snd (snd (export_users_body gl out sl u s))) = stdout (snd s)"
  by (cases s; cases "fetch_user gl u")
     (simp add: export_users_body_def Let_def split: sum.splits)

lemma export_users_body_stages:
  "filter is_stage (api_calls (snd (snd (export_users_body gl out sl u s))))
     = filter is_stage (api_calls (snd s))"
  using fetch_user_calls [of gl u]
  by (cases s; cases "fetch_user gl u")
     (simp add: export_users_body_def Let_def split: sum.splits)

lemma export_users_body_announce:
  "filter is_announce (stderr (snd (snd (export_users_body gl out sl u s))))
     = filter is_announce (stderr (snd s))"
  by (cases s; cases "fetch_user gl u")
     (simp add: export_users_body_def Let_def is_announce_def split: sum.splits)


lemma export_users_fst:
  "fst (export_users gl out sl st) = outcome (snd (user_rows gl))"
  unfolding export_users_def Let_def user_rows_def
  by (rule export_loop_fst) (rule export_users_body_fst)

lemma export_users_files:
  "files (snd (export_users gl out sl st))
     = (files st)(out \<mapsto> header_row user_fieldnames # fst (user_rows gl))"
  unfolding export_users_def Let_def user_rows_def
  by (subst export_loop_files [where f = "\<lambda>u. fst (fetch_user gl u)" and out = out
        and c = "[header_row user_fieldnames]"])
     (simp_all add: export_users_body_fst export_users_body_files add_row_def)

lemma export_users_dirs: "dirs (snd (export_users gl out sl st)) = dirs st"
  unfolding export_users_def Let_def
  by (subst export_loop_preserves [where V = dirs]) (simp_all add: export_users_body_dirs)

lemma export_users_stdout: "stdout (snd (export_users gl out sl st)) = stdout st"
  unfolding export_users_def Let_def
  by (subst export_loop_preserves [where V = stdout]) (simp_all add: export_users_body_stdout)

lemma export_users_stages:
  "filter is_stage (api_calls (snd (export_users gl out sl st)))
     = filter is_stage (api_calls st) @ [UsersList]"
  unfolding export_users_def Let_def
  by (subst export_loop_preserves [where V = "\<lambda>s. filter is_stage (api_calls s)"])
     (simp_all add: export_users_body_stages)

lemma export_users_announce:
  "filter is_announce (stderr (snd (export_users gl out sl st)))
     = filter is_announce (stderr st) @
         [''Exporting users -> '' @ snd out @ '' ...'']"
  unfolding export_users_def Let_def
  by (subst export_loop_preserves [where V = "\<lambda>s. filter is_announce (stderr s)"])
     (simp_all add: export_users_body_announce is_announce_def)

section \<open>The orchestrator, stage by stage\<close>

lemma case_prod_sum:
  "(case p of (Inl e, s) \<Rightarrow> F e s | (Inr u, s) \<Rightarrow> G u s)
     = (case fst p of Inl e \<Rightarrow> F e (snd p) | Inr u \<Rightarrow> G u (snd p))"
  by (cases p) (simp split: sum.splits)

lemma outcome_simps [simp]: "outcome None = Inr ()" "outcome (Some e) = Inl e"
  by (simp_all add: outcome_def)

lemma main_config_error:
  "arg_url a = [] \<or> arg_token a = [] \<Longrightarrow>
   main ev a st = (Inl (SystemExit 2),
     eprint (if arg_url a = [] then ''ERROR: GitLab URL not provided. Use --url or set GITLAB_URL.''
             else ''ERROR: GitLab token not provided. Use --token or set GITLAB_TOKEN.'') st)"
  by (auto simp: main_def)

lemma main_auth_error:
  "arg_url a \<noteq> [] \<Longrightarrow> arg_token a \<noteq> [] \<Longrightarrow> auth (client ev a) = Some e \<Longrightarrow>
   fst (main ev a st) = Inl e \<and> files (snd (main ev a st)) = files st"
  by (simp add: main_def make_gitlab_client_def client_def Let_def)


lemma outcome_eq [simp]:
  "(outcome r = Inl e) = (r = Some e)" "(outcome r = Inr u) = (r = None)"
  by (cases r; simp)+

lemma main_fst:
  "arg_url a \<noteq> [] \<Longrightarrow> arg_token a \<noteq> [] \<Longrightarrow> auth (client ev a) = None \<Longrightarrow>
   fst (main ev a st) =
     outcome (first_failure (client ev a) (arg_members_scope a) (arg_include_archived a))"
  by (cases "arg_include_archived a")
     (simp_all add: main_def make_gitlab_client_def client_def [symmetric] Let_def case_prod_sum
      export_projects_fst export_groups_fst export_users_fst first_failure_def
      split: option.splits sum.splits del: py_str.simps)

lemma main_files:
  "arg_url a \<noteq> [] \<Longrightarrow> arg_token a \<noteq> [] \<Longrightarrow> auth (client ev a) = None \<Longrightarrow>
   files (snd (main ev a st)) =
     run_files (client ev a) (arg_members_scope a) (arg_include_archived a) (out_dir ev a) (files st)"
  by (cases "arg_include_archived a")
     (simp_all add: main_def make_gitlab_client_def client_def [symmetric] out_dir_def [symmetric]
      Let_def case_prod_sum
      export_projects_fst export_groups_fst export_users_fst
      export_projects_files export_groups_files export_users_files run_files_def
      split: option.splits sum.splits del: py_str.simps)

lemma walk_run_all_fetched:
  "all_fetched f w \<Longrightarrow>
     snd (walk_run f w) = None \<and> map Inr (fst (walk_run f w)) = map f (walk_items w)"
proof (induction f w rule: walk_run.induct)
  case (4 f x xs w)
  then show ?case
    by (cases "f x") (auto simp: all_fetched_def split: prod.splits)
qed (simp_all add: all_fetched_def)

lemma walk_run_prefix:
  "map Inr (fst (walk_run f w)) = take (length (fst (walk_run f w))) (map f (walk_items w))"
proof (induction f w rule: walk_run.induct)
  case (4 f x xs w)
  then show ?case
    by (cases "f x") (auto split: prod.splits)
qed simp_all

lemma all_fetched_rows:
  assumes "all_fetched f w"
  shows "one_row_each (F(p \<mapsto> hdr # fst (walk_run f w))) p hdr f (walk_items w)"
proof -
  from walk_run_all_fetched [OF assms]
  have m: "map Inr (fst (walk_run f w)) = map f (walk_items w)" by simp
  then have "length (fst (walk_run f w)) = length (walk_items w)"
    by (metis length_map)
  with m show ?thesis by (simp add: one_row_each_def)
qed

lemma main_stdout:
  "arg_url a \<noteq> [] \<Longrightarrow> arg_token a \<noteq> [] \<Longrightarrow> auth (client ev a) = None \<Longrightarrow>
   stdout (snd (main ev a st)) =
     (case first_failure (client ev a) (arg_members_scope a) (arg_include_archived a) of
        None \<Rightarrow> stdout st @ [resolve ev (out_dir ev a)]
      | Some e \<Rightarrow> stdout st)"
  by (cases "arg_include_archived a")
     (simp_all add: main_def make_gitlab_client_def client_def [symmetric] out_dir_def [symmetric]
      Let_def case_prod_sum
      export_projects_fst export_groups_fst export_users_fst
      export_projects_stdout export_groups_stdout export_users_stdout first_failure_def
      split: option.splits sum.splits del: py_str.simps)

lemma main_stages:
  "arg_url a \<noteq> [] \<Longrightarrow> arg_token a \<noteq> [] \<Longrightarrow> auth (client ev a) = None \<Longrightarrow>
   first_failure (client ev a) (arg_members_scope a) (arg_include_archived a) = None \<Longrightarrow>
   filter is_stage (api_calls (snd (main ev a st))) =
     filter is_stage (api_calls st) @ [ProjectsList False] @
       (if arg_include_archived a then [ProjectsList True] else []) @ [GroupsList, UsersList]"
  by (cases "arg_include_archived a")
     (simp_all add: main_def make_gitlab_client_def client_def [symmetric] out_dir_def [symmetric]
      Let_def case_prod_sum
      export_projects_fst export_groups_fst export_users_fst
      export_projects_stages export_groups_stages export_users_stages first_failure_def
      split: option.splits sum.splits del: py_str.simps)

lemma main_announce:
  "arg_url a \<noteq> [] \<Longrightarrow> arg_token a \<noteq> [] \<Longrightarrow> auth (client ev a) = None \<Longrightarrow>
   first_failure (client ev a) (arg_members_scope a) (arg_include_archived a) = None \<Longrightarrow>
   filter is_announce (stderr (snd (main ev a st))) =
     filter is_announce (stderr st) @ [''Exporting active projects -> projects.csv ...''] @
       (if arg_include_archived a
        then [''Exporting archived projects -> archived_projects.csv ...''] else []) @
       [''Exporting groups -> groups.csv ...'', ''Exporting users -> users.csv ...'']"
  by (cases "arg_include_archived a")
     (simp_all add: main_def make_gitlab_client_def client_def [symmetric] out_dir_def [symmetric]
      Let_def case_prod_sum
      export_projects_fst export_groups_fst export_users_fst
      export_projects_announce export_groups_announce export_users_announce first_failure_def
      is_announce_def
      split: option.splits sum.splits del: py_str.simps)

lemma run_files_archived:
  "run_files gl sc False d F (d', ''archived_projects.csv'') = F (d', ''archived_projects.csv'')"
  by (simp add: run_files_def Let_def split: option.splits)

lemma main_files_archived:
  assumes "\<not> arg_include_archived a"
  shows "files (snd (main ev a st)) (d, ''archived_projects.csv'') = files st (d, ''archived_projects.csv'')"
proof (cases "arg_url a = [] \<or> arg_token a = []")
  case True
  then show ?thesis by (simp add: main_config_error)
next
  case False
  show ?thesis
  proof (cases "auth (client ev a)")
    case None
    with False assms show ?thesis by (simp add: main_files run_files_archived)
  next
    case (Some e)
    with False show ?thesis by (simp add: main_auth_error)
  qed
qed

section \<open>The example servers\<close>

lemma demo_project_rows:
  "project_rows demo_gl ''direct'' False =
     ([[PyInt 1, PyStr ''demo'', PyStr [], PyStr [], PyStr [], PyStr [], PyBool False,
        PyStr ''alice:Developer''],
       [PyInt 2, PyStr ''demo'', PyStr [], PyStr [], PyStr [], PyStr [], PyBool False,
        PyStr ''alice:Developer''],
       [PyInt 3, PyStr ''demo'', PyStr [], PyStr [], PyStr [], PyStr [], PyBool False,
        PyStr ''alice:Developer'']], None)"
  by (simp add: project_rows_def demo_gl_def fetch_project_def get_attr_def stub_def
      demo_resource_def iter_all_def format_members_ok part_alice dict_row_def
      project_fieldnames_def safe_get_def)

lemma demo_group_rows:
  "group_rows demo_gl ''direct'' =
     ([[PyInt 5, PyStr ''demo'', PyStr [], PyStr [], PyStr [], PyStr [],
        PyStr ''alice:Developer'']], None)"
  by (simp add: group_rows_def demo_gl_def fetch_group_def get_attr_def stub_def
      demo_resource_def iter_all_def format_members_ok part_alice dict_row_def
      group_fieldnames_def safe_get_def)

lemma demo_user_rows: "user_rows demo_gl = ([], None)"
  by (simp add: user_rows_def demo_gl_def)

lemma flaky_project_rows: "project_rows flaky_gl sc a = project_rows demo_gl sc a"
proof -
  have g: "projects_get flaky_gl = projects_get demo_gl"
    and l: "projects_list flaky_gl = projects_list demo_gl"
    by (simp_all add: flaky_gl_def)
  show ?thesis unfolding project_rows_def fetch_project_def g l ..
qed

lemma flaky_group_rows:
  "group_rows flaky_gl ''direct'' =
     ([[PyInt 5, PyStr ''demo'', PyStr [], PyStr [], PyStr [], PyStr [],
        PyStr ''alice:Developer'']], Some (GitlabError ''429 Too Many Requests''))"
  by (simp add: group_rows_def flaky_gl_def demo_gl_def fetch_group_def get_attr_def stub_def
      demo_resource_def iter_all_def format_members_ok format_members_error
      part_alice dict_row_def group_fieldnames_def safe_get_def)

lemma demo_config:
  "arg_url demo_args \<noteq> []" "arg_token demo_args \<noteq> []" "\<not> arg_include_archived demo_args"
  "arg_members_scope demo_args = ''direct''" "out_dir (demo_env gl) demo_args = ''out''"
  "client (demo_env gl) demo_args = gl" "resolve (demo_env gl) d = ''/work/'' @ d"
  by (simp_all add: demo_args_def out_dir_def client_def demo_env_def posix_norm_def)

lemma demo_auth: "auth demo_gl = None" "auth flaky_gl = None"
  by (simp_all add: demo_gl_def flaky_gl_def)

section \<open>Configuration errors, stage order, rewriting of files\<close>

text \<open>
  Claim C8. When the URL or the token is missing, \<open>main\<close> reports the configuration error
  on the diagnostic channel and exits with status 2: no call on the client is made, and
  no directory and no file is created or changed.
\<close>

theorem main_missing_config:
  assumes "arg_url a = [] \<or> arg_token a = []"
  shows "fst (main ev a st) = Inl (SystemExit 2) \<and>
         exit_status (fst (main ev a st)) \<noteq> 0 \<and>
         api_calls (snd (main ev a st)) = api_calls st \<and>
         dirs (snd (main ev a st)) = dirs st \<and>
         files (snd (main ev a st)) = files st \<and>
         stdout (snd (main ev a st)) = stdout st \<and>
         stderr (snd (main ev a st)) = stderr st @
           [if arg_url a = [] then ''ERROR: GitLab URL not provided. Use --url or set GITLAB_URL.''
            else ''ERROR: GitLab token not provided. Use --token or set GITLAB_TOKEN.'']"
  using assms by (simp add: main_config_error)

theorem main_missing_config_witness:
  "(arg_url (demo_args\<lparr>arg_token := ''''\<rparr>) = [] \<or> arg_token (demo_args\<lparr>arg_token := ''''\<rparr>) = []) \<and>
   fst (main (demo_env demo_gl) (demo_args\<lparr>arg_token := ''''\<rparr>) world0) = Inl (SystemExit 2) \<and>
   api_calls (snd (main (demo_env demo_gl) (demo_args\<lparr>arg_token := ''''\<rparr>) world0)) = [] \<and>
   dirs (snd (main (demo_env demo_gl) (demo_args\<lparr>arg_token := ''''\<rparr>) world0)) = {} \<and>
   files (snd (main (demo_env demo_gl) (demo_args\<lparr>arg_token := ''''\<rparr>) world0)) = Map.empty \<and>
   stderr (snd (main (demo_env demo_gl) (demo_args\<lparr>arg_token := ''''\<rparr>) world0)) =
     [''ERROR: GitLab token not provided. Use --token or set GITLAB_TOKEN.'']"
proof -
  have h: "arg_url (demo_args\<lparr>arg_token := ''''\<rparr>) = [] \<or> arg_token (demo_args\<lparr>arg_token := ''''\<rparr>) = []"
    by simp
  have u: "arg_url (demo_args\<lparr>arg_token := ''''\<rparr>) \<noteq> []" by (simp add: demo_args_def)
  from main_missing_config [OF h, of "demo_env demo_gl" world0] h u show ?thesis
    by (simp add: world0_def)
qed

text \<open>
  Claim C6. A run that succeeds lists the active projects, then (only with the archived
  flag) the archived projects, then the groups, then the users, and announces the four
  exporters in that order; without the flag, no run touches a file named
  \<open>archived_projects.csv\<close>.
\<close>

theorem main_stage_order:
  "(fst (main ev a st) = Inr () \<longrightarrow>
      filter is_stage (api_calls (snd (main ev a st))) =
        filter is_stage (api_calls st) @ [ProjectsList False] @
          (if arg_include_archived a then [ProjectsList True] else []) @ [GroupsList, UsersList] \<and>
      filter is_announce (stderr (snd (main ev a st))) =
        filter is_announce (stderr st) @ [''Exporting active projects -> projects.csv ...''] @
          (if arg_include_archived a
           then [''Exporting archived projects -> archived_projects.csv ...''] else []) @
          [''Exporting groups -> groups.csv ...'', ''Exporting users -> users.csv ...'']) \<and>
   (\<not> arg_include_archived a \<longrightarrow>
      (\<forall>d. files (snd (main ev a st)) (d, ''archived_projects.csv'')
             = files st (d, ''archived_projects.csv'')))"
proof (intro conjI impI allI)
  assume ok: "fst (main ev a st) = Inr ()"
  have c: "arg_url a \<noteq> [] \<and> arg_token a \<noteq> []"
    using ok main_config_error [of a ev st] by auto
  have au: "auth (client ev a) = None"
  proof (cases "auth (client ev a)")
    case (Some e)
    with c ok main_auth_error [of a ev e st] show ?thesis by simp
  qed simp
  have ff: "first_failure (client ev a) (arg_members_scope a) (arg_include_archived a) = None"
    using ok c au by (simp add: main_fst)
  show "filter is_stage (api_calls (snd (main ev a st))) =
        filter is_stage (api_calls st) @ [ProjectsList False] @
          (if arg_include_archived a then [ProjectsList True] else []) @ [GroupsList, UsersList]"
    using main_stages [of a ev st] c au ff by blast
  show "filter is_announce (stderr (snd (main ev a st))) =
        filter is_announce (stderr st) @ [''Exporting active projects -> projects.csv ...''] @
          (if arg_include_archived a
           then [''Exporting archived projects -> archived_projects.csv ...''] else []) @
          [''Exporting groups -> groups.csv ...'', ''Exporting users -> users.csv ...'']"
    using main_announce [of a ev st] c au ff by blast
next
  fix d
  assume "\<not> arg_include_archived a"
  then show "files (snd (main ev a st)) (d, ''archived_projects.csv'')
             = files st (d, ''archived_projects.csv'')"
    by (rule main_files_archived)
qed

lemma demo_first_failure: "first_failure demo_gl ''direct'' False = None"
  by (simp add: first_failure_def demo_project_rows demo_group_rows demo_user_rows)

theorem main_stage_order_witness:
  "fst (main (demo_env demo_gl) demo_args world0) = Inr () \<and>
   \<not> arg_include_archived demo_args \<and>
   filter is_stage (api_calls (snd (main (demo_env demo_gl) demo_args world0)))
     = [ProjectsList False, GroupsList, UsersList] \<and>
   filter is_announce (stderr (snd (main (demo_env demo_gl) demo_args world0)))
     = [''Exporting active projects -> projects.csv ...'', ''Exporting groups -> groups.csv ...'',
        ''Exporting users -> users.csv ...''] \<and>
   files (snd (main (demo_env demo_gl) demo_args world0)) (''out'', ''archived_projects.csv'') = None"
proof -
  have ok: "fst (main (demo_env demo_gl) demo_args world0) = Inr ()"
    by (simp add: main_fst demo_config demo_auth demo_first_failure)
  have na: "\<not> arg_include_archived demo_args" by (rule demo_config)
  from main_stage_order [of "demo_env demo_gl" demo_args world0] ok na show ?thesis
    by (simp add: world0_def)
qed

lemma run_files_idem:
  "run_files gl sc inc d (run_files gl sc inc d F) = run_files gl sc inc d F"
  by (cases inc) (auto simp: run_files_def Let_def fun_upd_twist split: option.splits)

lemma main_files_rerun:
  "files (snd (main ev a (snd (main ev a st)))) = files (snd (main ev a st))"
proof (cases "arg_url a = [] \<or> arg_token a = []")
  case True
  then show ?thesis by (simp add: main_config_error)
next
  case False
  show ?thesis
  proof (cases "auth (client ev a)")
    case None
    with False show ?thesis by (simp add: main_files run_files_idem)
  next
    case (Some e)
    with False show ?thesis by (simp add: main_auth_error)
  qed
qed

text \<open>
  Claim C10. Whatever the output path held before, after an exporter has run the file
  there is the header followed by the rows of this run: the file is opened for writing,
  which empties it, and the header is written first. Running \<open>main\<close> again on the
  state it left gives the same files.
\<close>

theorem exporters_replace_file:
  "files (snd (export_projects gl out a sc sl st)) out
     = Some (header_row project_fieldnames # fst (project_rows gl sc a)) \<and>
   files (snd (export_groups gl out sc sl st)) out
     = Some (header_row group_fieldnames # fst (group_rows gl sc)) \<and>
   files (snd (export_users gl out sl st)) out
     = Some (header_row user_fieldnames # fst (user_rows gl)) \<and>
   files (snd (export_projects gl out a sc sl (st\<lparr>files := (files st)(out \<mapsto> old)\<rparr>)))
     = files (snd (export_projects gl out a sc sl st)) \<and>
   files (snd (export_groups gl out sc sl (st\<lparr>files := (files st)(out \<mapsto> old)\<rparr>)))
     = files (snd (export_groups gl out sc sl st)) \<and>
   files (snd (export_users gl out sl (st\<lparr>files := (files st)(out \<mapsto> old)\<rparr>)))
     = files (snd (export_users gl out sl st)) \<and>
   files (snd (main ev args (snd (main ev args st)))) = files (snd (main ev args st))"
  by (simp add: export_projects_files export_groups_files export_users_files main_files_rerun)

theorem exporters_replace_file_witness:
  "files (snd (export_users demo_gl (''out'', ''users.csv'') 0
      (world0\<lparr>files := (files world0)((''out'', ''users.csv'') \<mapsto> [[PyStr ''stale''], [PyInt 1]])\<rparr>)))
     (''out'', ''users.csv'') = Some [header_row user_fieldnames]"
  using exporters_replace_file [of demo_gl "(''out'', ''users.csv'')" _ _ 0
      "world0\<lparr>files := (files world0)((''out'', ''users.csv'') \<mapsto> [[PyStr ''stale''], [PyInt 1]])\<rparr>"]
  by (simp add: demo_user_rows)

section \<open>One row per entity\<close>

lemma all_fetched_no_failure: "all_fetched f w \<Longrightarrow> snd (walk_run f w) = None"
  by (simp add: walk_run_all_fetched)

lemma export_users_rows:
  assumes "all_fetched (\<lambda>u. fst (fetch_user gl u)) (users_list gl)"
  shows "fst (export_users gl out sl st) = Inr () \<and>
         one_row_each (files (snd (export_users gl out sl st))) out (header_row user_fieldnames)
           (\<lambda>u. fst (fetch_user gl u)) (walk_items (users_list gl))"
  using all_fetched_rows [OF assms] all_fetched_no_failure [OF assms]
  by (simp add: export_users_fst export_users_files user_rows_def)

lemma export_groups_rows:
  assumes "all_fetched (\<lambda>g. fst (fetch_group gl sc g)) (groups_list gl)"
  shows "fst (export_groups gl out sc sl st) = Inr () \<and>
         one_row_each (files (snd (export_groups gl out sc sl st))) out (header_row group_fieldnames)
           (\<lambda>g. fst (fetch_group gl sc g)) (walk_items (groups_list gl))"
  using all_fetched_rows [OF assms] all_fetched_no_failure [OF assms]
  by (simp add: export_groups_fst export_groups_files group_rows_def)

lemma export_projects_rows:
  assumes "all_fetched (\<lambda>p. fst (fetch_project gl sc p)) (projects_list gl a)"
  shows "fst (export_projects gl out a sc sl st) = Inr () \<and>
         one_row_each (files (snd (export_projects gl out a sc sl st))) out
           (header_row project_fieldnames)
           (\<lambda>p. fst (fetch_project gl sc p)) (walk_items (projects_list gl a))"
  using all_fetched_rows [OF assms] all_fetched_no_failure [OF assms]
  by (simp add: export_projects_fst export_projects_files project_rows_def)








section \<open>The requests of a run\<close>

lemma for_walk_log:
  assumes "\<And>x s. fst (body x s) = (case f x of Inl e \<Rightarrow> Inl e | Inr y \<Rightarrow> Inr ())"
    and "\<And>x s. L (snd (body x s)) = L s @ g x"
  shows "L (snd (for_walk body w s)) = L s @ concat (map g (walk_done f w))"
  using assms
proof (induction body w s rule: for_walk.induct)
  case (4 body x xs w s)
  show ?case
  proof (cases "body x s")
    case (Pair r s')
    then have r: "r = (case f x of Inl e \<Rightarrow> Inl e | Inr y \<Rightarrow> Inr ())"
      using "4.prems"(1) [of x s] by simp
    from Pair have l: "L s' = L s @ g x"
      using "4.prems"(2) [of x s] by simp
    show ?thesis
    proof (cases "f x")
      case (Inl e)
      with r l Pair show ?thesis by simp
    next
      case (Inr y)
      with r have "r = Inr ()" by simp
      with "4.IH" [OF Pair [symmetric] _ "4.prems"] l Pair Inr show ?thesis
        by (simp split: prod.splits)
    qed
  qed
qed simp_all

lemma export_loop_log:
  assumes "\<And>x s. fst (body x s) = (case f x of Inl e \<Rightarrow> Inl e | Inr y \<Rightarrow> Inr ())"
    and "\<And>x s. L (snd (snd (body x s))) = L (snd s) @ g x"
    and "\<And>s. L (fin s) = L s"
  shows "L (snd (case iter_all w of
      Inl e \<Rightarrow> (Inl e, st)
    | Inr it \<Rightarrow>
        (case for_walk body it (0::int, st) of
           (Inl e, (c, st')) \<Rightarrow> (Inl e, st')
         | (Inr u, (c, st')) \<Rightarrow> (Inr (), fin st')))) = L st @ concat (map g (walk_done f w))"
  unfolding export_shape Let_def
  using for_walk_log [of body f "\<lambda>s. L (snd s)" g w "(0, st)", OF assms(1) assms(2)] assms(3)
  by (simp split: sum.splits)

lemma export_projects_body_calls:
  "api_calls (snd (snd (export_projects_body gl out sc sl p s)))
     = api_calls (snd s) @ snd (fetch_project gl sc p)"
  by (cases s; cases "fetch_project gl sc p")
     (simp add: export_projects_body_def Let_def split: sum.splits)

lemma export_groups_body_calls:
  "api_calls (snd (snd (export_groups_body gl out sc sl g s)))
     = api_calls (snd s) @ snd (fetch_group gl sc g)"
  by (cases s; cases "fetch_group gl sc g")
     (simp add: export_groups_body_def Let_def split: sum.splits)

lemma export_users_body_calls:
  "api_calls (snd (snd (export_users_body gl out sl u s)))
     = api_calls (snd s) @ snd (fetch_user gl u)"
  by (cases s; cases "fetch_user gl u")
     (simp add: export_users_body_def Let_def split: sum.splits)

lemma export_projects_calls:
  "api_calls (snd (export_projects gl out a sc sl st))
     = api_calls st @ project_stage_calls gl sc a"
  unfolding export_projects_def Let_def project_stage_calls_def
  by (subst export_loop_log [where L = api_calls and f = "\<lambda>p. fst (fetch_project gl sc p)"
        and g = "\<lambda>p. snd (fetch_project gl sc p)"])
     (simp_all add: export_projects_body_fst export_projects_body_calls)

lemma export_groups_calls:
  "api_calls (snd (export_groups gl out sc sl st)) = api_calls st @ group_stage_calls gl sc"
  unfolding export_groups_def Let_def group_stage_calls_def
  by (subst export_loop_log [where L = api_calls and f = "\<lambda>g. fst (fetch_group gl sc g)"
        and g = "\<lambda>g. snd (fetch_group gl sc g)"])
     (simp_all add: export_groups_body_fst export_groups_body_calls)

lemma export_users_calls:
  "api_calls (snd (export_users gl out sl st)) = api_calls st @ user_stage_calls gl"
  unfolding export_users_def Let_def user_stage_calls_def
  by (subst export_loop_log [where L = api_calls and f = "\<lambda>u. fst (fetch_user gl u)"
        and g = "\<lambda>u. snd (fetch_user gl u)"])
     (simp_all add: export_users_body_fst export_users_body_calls)

lemma main_calls:
  "arg_url a \<noteq> [] \<Longrightarrow> arg_token a \<noteq> [] \<Longrightarrow> auth (client ev a) = None \<Longrightarrow>
   api_calls (snd (main ev a st)) =
     api_calls st @ run_calls (client ev a) (arg_members_scope a) (arg_include_archived a)"
  by (cases "arg_include_archived a")
     (simp_all add: main_def make_gitlab_client_def client_def [symmetric] out_dir_def [symmetric]
      Let_def case_prod_sum
      export_projects_fst export_groups_fst export_users_fst
      export_projects_calls export_groups_calls export_users_calls run_calls_def
      split: option.splits sum.splits del: py_str.simps)

section \<open>From the client's answers to the result of a stage\<close>

lemma fetch_project_requests:
  "snd (fetch_project gl sc p) = resource_calls ProjectsGet (projects_get gl) sc p"
  by (simp add: fetch_project_def resource_calls_def get_attr_def Let_def
      split: option.splits sum.splits)

lemma fetch_group_requests:
  "snd (fetch_group gl sc g) = resource_calls GroupsGet (groups_get gl) sc g"
  by (simp add: fetch_group_def resource_calls_def get_attr_def Let_def
      split: option.splits sum.splits)

lemma fetch_user_requests: "snd (fetch_user gl u) = user_calls u"
  by (simp add: fetch_user_def user_calls_def get_attr_def split: option.splits sum.splits)

lemma iter_all_ok: "walk_error w = None \<Longrightarrow> iter_all w = Inr w"
  by (cases w) (simp_all add: iter_all_def)

lemma iter_all_failing:
  "walk_error w = Some e \<Longrightarrow> iter_all w = Inl e \<or> (iter_all w = Inr w \<and> format_members w = Inl e)"
  by (cases w) (simp_all add: iter_all_def format_members_error)

lemma fetch_project_ok:
  assumes "resource_ok (projects_get gl) sc p"
  shows "\<not> isl (fst (fetch_project gl sc p))"
proof -
  from assms obtain xid res v where x: "p ''id'' = Some xid" and g: "projects_get gl xid = Inr res"
    and i: "attrs res ''id'' = Some v" and w: "walk_error (members_of sc res) = None"
    by (auto simp: resource_ok_def split: option.splits sum.splits)
  show ?thesis
    using iter_all_ok [OF w] format_members_ok [OF w]
    by (simp add: fetch_project_def get_attr_def x g i Let_def members_of_def [symmetric])
qed

lemma fetch_group_ok:
  assumes "resource_ok (groups_get gl) sc g"
  shows "\<not> isl (fst (fetch_group gl sc g))"
proof -
  from assms obtain xid res v where x: "g ''id'' = Some xid" and g: "groups_get gl xid = Inr res"
    and i: "attrs res ''id'' = Some v" and w: "walk_error (members_of sc res) = None"
    by (auto simp: resource_ok_def split: option.splits sum.splits)
  show ?thesis
    using iter_all_ok [OF w] format_members_ok [OF w]
    by (simp add: fetch_group_def get_attr_def x g i Let_def members_of_def [symmetric])
qed

lemma fetch_user_ok: "user_ok (users_get gl) u \<Longrightarrow> \<not> isl (fst (fetch_user gl u))"
  by (auto simp: user_ok_def fetch_user_def get_attr_def split: option.splits sum.splits)

lemma fetch_project_fails:
  assumes "resource_fails (projects_get gl) sc p e"
  shows "fst (fetch_project gl sc p) = Inl e"
proof -
  from assms obtain xid where x: "p ''id'' = Some xid"
    by (auto simp: resource_fails_def split: option.splits)
  show ?thesis
  proof (cases "projects_get gl xid")
    case (Inl e')
    with assms x show ?thesis by (simp add: resource_fails_def fetch_project_def get_attr_def)
  next
    case (Inr res)
    with assms x obtain v where i: "attrs res ''id'' = Some v"
      and w: "walk_error (members_of sc res) = Some e"
      by (auto simp: resource_fails_def)
    from iter_all_failing [OF w] show ?thesis
      by (auto simp: fetch_project_def get_attr_def x Inr i Let_def members_of_def [symmetric])
  qed
qed

lemma fetch_group_fails:
  assumes "resource_fails (groups_get gl) sc g e"
  shows "fst (fetch_group gl sc g) = Inl e"
proof -
  from assms obtain xid where x: "g ''id'' = Some xid"
    by (auto simp: resource_fails_def split: option.splits)
  show ?thesis
  proof (cases "groups_get gl xid")
    case (Inl e')
    with assms x show ?thesis by (simp add: resource_fails_def fetch_group_def get_attr_def)
  next
    case (Inr res)
    with assms x obtain v where i: "attrs res ''id'' = Some v"
      and w: "walk_error (members_of sc res) = Some e"
      by (auto simp: resource_fails_def)
    from iter_all_failing [OF w] show ?thesis
      by (auto simp: fetch_group_def get_attr_def x Inr i Let_def members_of_def [symmetric])
  qed
qed

lemma fetch_user_fails: "user_fails (users_get gl) u e \<Longrightarrow> fst (fetch_user gl u) = Inl e"
  by (auto simp: user_fails_def fetch_user_def get_attr_def split: option.splits sum.splits)

lemma walk_run_ok_items:
  "walk_error w = None \<Longrightarrow> list_all (\<lambda>x. \<not> isl (f x)) (walk_items w) \<Longrightarrow>
   walk_run f w = (map (\<lambda>x. projr (f x)) (walk_items w), None) \<and> walk_done f w = walk_items w"
proof (induction f w rule: walk_run.induct)
  case (4 f x xs w)
  then show ?case by (cases "f x") (auto split: prod.splits)
qed simp_all

lemma walk_run_page_fails:
  "walk_error w = Some e \<Longrightarrow> list_all (\<lambda>x. \<not> isl (f x)) (walk_items w) \<Longrightarrow>
   walk_run f w = (map (\<lambda>x. projr (f x)) (walk_items w), Some e) \<and> walk_done f w = walk_items w"
proof (induction f w rule: walk_run.induct)
  case (4 f x xs w)
  then show ?case by (cases "f x") (auto split: prod.splits)
qed simp_all

lemma walk_run_item_fails:
  "take (Suc (length xs)) (walk_items w) = xs @ [x] \<Longrightarrow> list_all (\<lambda>x. \<not> isl (f x)) xs \<Longrightarrow>
   f x = Inl e \<Longrightarrow>
   walk_run f w = (map (\<lambda>x. projr (f x)) xs, Some e) \<and> walk_done f w = xs @ [x]"
proof (induction f w arbitrary: xs rule: walk_run.induct)
  case (1 f)
  then show ?case by simp
next
  case (2 f e')
  then show ?case by simp
next
  case (3 f w)
  then show ?case by simp
next
  case (4 f z zs w)
  show ?case
  proof (cases xs)
    case Nil
    with "4.prems" have "z = x" by simp
    with "4.prems" Nil show ?thesis by simp
  next
    case (Cons y ys)
    with "4.prems" have zy: "z = y"
      and t: "take (Suc (length ys)) (walk_items (Page zs w)) = ys @ [x]"
      and oks: "list_all (\<lambda>x. \<not> isl (f x)) ys" and okz: "\<not> isl (f y)"
      by simp_all
    from okz obtain r where r: "f y = Inr r" by (cases "f y") simp_all
    from "4.IH" [OF r [folded zy] t oks "4.prems"(3)] r zy Cons show ?thesis
      by simp
  qed
qed

lemma listing_ok_run:
  assumes "listing_ok ok w" and "\<And>x. ok x \<Longrightarrow> \<not> isl (f x)"
  shows "walk_run f w = (map (\<lambda>x. projr (f x)) (walk_items w), None) \<and>
         walk_done f w = walk_items w"
proof -
  from assms have "walk_error w = None" and "list_all (\<lambda>x. \<not> isl (f x)) (walk_items w)"
    by (auto simp: listing_ok_def list_all_iff)
  then show ?thesis by (rule walk_run_ok_items)
qed

lemma listing_fails_run:
  assumes "listing_fails ok fails w xs bad e" and "\<And>x. ok x \<Longrightarrow> \<not> isl (f x)"
    and "\<And>x. fails x e \<Longrightarrow> f x = Inl e"
  shows "walk_run f w = (map (\<lambda>x. projr (f x)) xs, Some e) \<and> walk_done f w = xs @ bad"
proof (cases bad)
  case Nil
  with assms(1) have "walk_error w = Some e" and "walk_items w = xs"
    and "list_all (\<lambda>x. \<not> isl (f x)) (walk_items w)"
    using assms(2) by (auto simp: listing_fails_def list_all_iff)
  with walk_run_page_fails [of w e f] Nil show ?thesis by simp
next
  case (Cons x others)
  with assms(1) have m: "others = []" and t: "take (Suc (length xs)) (walk_items w) = xs @ [x]"
    and f: "fails x e" and "list_all ok xs"
    by (simp_all add: listing_fails_def)
  then have "list_all (\<lambda>x. \<not> isl (f x)) xs" using assms(2) by (auto simp: list_all_iff)
  from walk_run_item_fails [OF t this assms(3) [OF f]] Cons m show ?thesis by simp
qed

lemma project_stage_ok:
  assumes "listing_ok (resource_ok (projects_get gl) sc) (projects_list gl a)"
  shows "project_rows gl sc a = (rows_of (fetch_project gl sc) (walk_items (projects_list gl a)), None) \<and>
         project_stage_calls gl sc a =
           ProjectsList a #
           concat (map (resource_calls ProjectsGet (projects_get gl) sc) (walk_items (projects_list gl a)))"
  using listing_ok_run [OF assms, of "\<lambda>p. fst (fetch_project gl sc p)"]
  by (simp add: fetch_project_ok project_rows_def project_stage_calls_def rows_of_def
      fetch_project_requests)

lemma project_stage_fails:
  assumes "listing_fails (resource_ok (projects_get gl) sc) (resource_fails (projects_get gl) sc)
             (projects_list gl a) xs bad e"
  shows "project_rows gl sc a = (rows_of (fetch_project gl sc) xs, Some e) \<and>
         project_stage_calls gl sc a =
           ProjectsList a # concat (map (resource_calls ProjectsGet (projects_get gl) sc) (xs @ bad))"
  using listing_fails_run [OF assms, of "\<lambda>p. fst (fetch_project gl sc p)"]
  by (simp add: fetch_project_ok fetch_project_fails project_rows_def project_stage_calls_def
      rows_of_def fetch_project_requests)

lemma group_stage_ok:
  assumes "listing_ok (resource_ok (groups_get gl) sc) (groups_list gl)"
  shows "group_rows gl sc = (rows_of (fetch_group gl sc) (walk_items (groups_list gl)), None) \<and>
         group_stage_calls gl sc =
           GroupsList #
           concat (map (resource_calls GroupsGet (groups_get gl) sc) (walk_items (groups_list gl)))"
  using listing_ok_run [OF assms, of "\<lambda>g. fst (fetch_group gl sc g)"]
  by (simp add: fetch_group_ok group_rows_def group_stage_calls_def rows_of_def
      fetch_group_requests)

lemma group_stage_fails:
  assumes "listing_fails (resource_ok (groups_get gl) sc) (resource_fails (groups_get gl) sc)
             (groups_list gl) xs bad e"
  shows "group_rows gl sc = (rows_of (fetch_group gl sc) xs, Some e) \<and>
         group_stage_calls gl sc =
           GroupsList # concat (map (resource_calls GroupsGet (groups_get gl) sc) (xs @ bad))"
  using listing_fails_run [OF assms, of "\<lambda>g. fst (fetch_group gl sc g)"]
  by (simp add: fetch_group_ok fetch_group_fails group_rows_def group_stage_calls_def
      rows_of_def fetch_group_requests)

lemma user_stage_fails:
  assumes "listing_fails (user_ok (users_get gl)) (user_fails (users_get gl)) (users_list gl) xs bad e"
  shows "user_rows gl = (rows_of (fetch_user gl) xs, Some e) \<and>
         user_stage_calls gl = UsersList # concat (map user_calls (xs @ bad))"
  using listing_fails_run [OF assms, of "\<lambda>u. fst (fetch_user gl u)"]
  by (simp add: fetch_user_ok fetch_user_fails user_rows_def user_stage_calls_def
      rows_of_def fetch_user_requests)

section \<open>Failures during a walk\<close>

lemma validated_runD:
  assumes "validated_run ev a gl sc d"
  shows "arg_url a \<noteq> []" and "arg_token a \<noteq> []" and "auth (client ev a) = None"
    and "client ev a = gl" and "arg_members_scope a = sc" and "out_dir ev a = d"
  using assms by (auto simp: validated_run_def)

text \<open>
  Claim C7. Stated on the answers of the client. Let the items \<open>xs\<close> of a listing be fine
  (detail fetched, member listing read to its end), and let the listing fail with \<open>e\<close>
  after them: its next page fetch raises \<open>e\<close>, or the detail fetch of the next item raises
  \<open>e\<close>, or the member listing of the next item raises \<open>e\<close>. Then the exporter returns \<open>e\<close>;
  its file holds the header and the rows of \<open>xs\<close>, those written before the failure; and
  the requests it made are the listing, then for each item of \<open>xs\<close> and for the failing one
  its requests, each once, in order: nothing is asked again, and nothing is asked after
  the failure. In a run whose connection is validated, where the stages before are fine,
  \<open>main\<close> returns \<open>e\<close> and prints no success line; the files are exactly those of the stages
  before, complete, and the file of the failing stage with the rows of \<open>xs\<close>; the requests
  are the validation, those of the stages before, and those of the failing stage up to the
  failure: no later stage asks anything.
\<close>

theorem run_aborts_on_failure:
  "(listing_fails (resource_ok (projects_get gl) sc) (resource_fails (projects_get gl) sc)
      (projects_list gl archived) xs bad e \<longrightarrow>
      fst (export_projects gl out archived sc sl w) = Inl e \<and>
      files (snd (export_projects gl out archived sc sl w)) =
        (files w)(out \<mapsto> header_row project_fieldnames # rows_of (fetch_project gl sc) xs) \<and>
      api_calls (snd (export_projects gl out archived sc sl w)) =
        api_calls w @ ProjectsList archived #
          concat (map (resource_calls ProjectsGet (projects_get gl) sc) (xs @ bad))) \<and>
   (listing_fails (resource_ok (groups_get gl) sc) (resource_fails (groups_get gl) sc)
      (groups_list gl) xs bad e \<longrightarrow>
      fst (export_groups gl out sc sl w) = Inl e \<and>
      files (snd (export_groups gl out sc sl w)) =
        (files w)(out \<mapsto> header_row group_fieldnames # rows_of (fetch_group gl sc) xs) \<and>
      api_calls (snd (export_groups gl out sc sl w)) =
        api_calls w @ GroupsList #
          concat (map (resource_calls GroupsGet (groups_get gl) sc) (xs @ bad))) \<and>
   (listing_fails (user_ok (users_get gl)) (user_fails (users_get gl)) (users_list gl) xs bad e \<longrightarrow>
      fst (export_users gl out sl w) = Inl e \<and>
      files (snd (export_users gl out sl w)) =
        (files w)(out \<mapsto> header_row user_fieldnames # rows_of (fetch_user gl) xs) \<and>
      api_calls (snd (export_users gl out sl w)) =
        api_calls w @ UsersList # concat (map user_calls (xs @ bad))) \<and>
   (validated_run ev a gl sc d \<and>
    listing_fails (resource_ok (projects_get gl) sc) (resource_fails (projects_get gl) sc)
      (projects_list gl False) xs bad e \<longrightarrow>
      fst (main ev a st) = Inl e \<and> stdout (snd (main ev a st)) = stdout st \<and>
      files (snd (main ev a st)) =
        (files st)((d, ''projects.csv'') \<mapsto>
           header_row project_fieldnames # rows_of (fetch_project gl sc) xs) \<and>
      api_calls (snd (main ev a st)) =
        api_calls st @ Auth # ProjectsList False #
          concat (map (resource_calls ProjectsGet (projects_get gl) sc) (xs @ bad))) \<and>
   (validated_run ev a gl sc d \<and>
    listing_ok (resource_ok (projects_get gl) sc) (projects_list gl False) \<and>
    arg_include_archived a \<and>
    listing_fails (resource_ok (projects_get gl) sc) (resource_fails (projects_get gl) sc)
      (projects_list gl True) xs bad e \<longrightarrow>
      fst (main ev a st) = Inl e \<and> stdout (snd (main ev a st)) = stdout st \<and>
      files (snd (main ev a st)) =
        (files st)
          ((d, ''projects.csv'') \<mapsto>
             header_row project_fieldnames #
             rows_of (fetch_project gl sc) (walk_items (projects_list gl False)),
           (d, ''archived_projects.csv'') \<mapsto>
             header_row project_fieldnames # rows_of (fetch_project gl sc) xs) \<and>
      api_calls (snd (main ev a st)) =
        api_calls st @ Auth #
          (ProjectsList False #
             concat (map (resource_calls ProjectsGet (projects_get gl) sc)
               (walk_items (projects_list gl False)))) @
          ProjectsList True #
             concat (map (resource_calls ProjectsGet (projects_get gl) sc) (xs @ bad))) \<and>
   (validated_run ev a gl sc d \<and>
    listing_ok (resource_ok (projects_get gl) sc) (projects_list gl False) \<and>
    (arg_include_archived a \<longrightarrow>
       listing_ok (resource_ok (projects_get gl) sc) (projects_list gl True)) \<and>
    listing_fails (resource_ok (groups_get gl) sc) (resource_fails (groups_get gl) sc)
      (groups_list gl) xs bad e \<longrightarrow>
      fst (main ev a st) = Inl e \<and> stdout (snd (main ev a st)) = stdout st \<and>
      files (snd (main ev a st)) =
        (let F1 = (files st)((d, ''projects.csv'') \<mapsto>
                     header_row project_fieldnames #
                     rows_of (fetch_project gl sc) (walk_items (projects_list gl False)));
             F2 = (if arg_include_archived a
                   then F1((d, ''archived_projects.csv'') \<mapsto>
                          header_row project_fieldnames #
                          rows_of (fetch_project gl sc) (walk_items (projects_list gl True)))
                   else F1)
         in F2((d, ''groups.csv'') \<mapsto> header_row group_fieldnames # rows_of (fetch_group gl sc) xs)) \<and>
      api_calls (snd (main ev a st)) =
        api_calls st @ Auth #
          (ProjectsList False #
             concat (map (resource_calls ProjectsGet (projects_get gl) sc)
               (walk_items (projects_list gl False)))) @
          (if arg_include_archived a
           then ProjectsList True #
                  concat (map (resource_calls ProjectsGet (projects_get gl) sc)
                    (walk_items (projects_list gl True)))
           else []) @
          GroupsList # concat (map (resource_calls GroupsGet (groups_get gl) sc) (xs @ bad))) \<and>
   (validated_run ev a gl sc d \<and>
    listing_ok (resource_ok (projects_get gl) sc) (projects_list gl False) \<and>
    (arg_include_archived a \<longrightarrow>
       listing_ok (resource_ok (projects_get gl) sc) (projects_list gl True)) \<and>
    listing_ok (resource_ok (groups_get gl) sc) (groups_list gl) \<and>
    listing_fails (user_ok (users_get gl)) (user_fails (users_get gl)) (users_list gl) xs bad e \<longrightarrow>
      fst (main ev a st) = Inl e \<and> stdout (snd (main ev a st)) = stdout st \<and>
      files (snd (main ev a st)) =
        (let F1 = (files st)((d, ''projects.csv'') \<mapsto>
                     header_row project_fieldnames #
                     rows_of (fetch_project gl sc) (walk_items (projects_list gl False)));
             F2 = (if arg_include_archived a
                   then F1((d, ''archived_projects.csv'') \<mapsto>
                          header_row project_fieldnames #
                          rows_of (fetch_project gl sc) (walk_items (projects_list gl True)))
                   else F1);
             F3 = F2((d, ''groups.csv'') \<mapsto>
                     header_row group_fieldnames #
                     rows_of (fetch_group gl sc) (walk_items (groups_list gl)))
         in F3((d, ''users.csv'') \<mapsto> header_row user_fieldnames # rows_of (fetch_user gl) xs)) \<and>
      api_calls (snd (main ev a st)) =
        api_calls st @ Auth #
          (ProjectsList False #
             concat (map (resource_calls ProjectsGet (projects_get gl) sc)
               (walk_items (projects_list gl False)))) @
          (if arg_include_archived a
           then ProjectsList True #
                  concat (map (resource_calls ProjectsGet (projects_get gl) sc)
                    (walk_items (projects_list gl True)))
           else []) @
          (GroupsList #
             concat (map (resource_calls GroupsGet (groups_get gl) sc) (walk_items (groups_list gl)))) @
          UsersList # concat (map user_calls (xs @ bad)))"
proof -
  have ep: "fst (export_projects gl out archived sc sl w) = Inl e \<and>
      files (snd (export_projects gl out archived sc sl w)) =
        (files w)(out \<mapsto> header_row project_fieldnames # rows_of (fetch_project gl sc) xs) \<and>
      api_calls (snd (export_projects gl out archived sc sl w)) =
        api_calls w @ ProjectsList archived #
          concat (map (resource_calls ProjectsGet (projects_get gl) sc) (xs @ bad))"
    if "listing_fails (resource_ok (projects_get gl) sc) (resource_fails (projects_get gl) sc)
      (projects_list gl archived) xs bad e"
    using project_stage_fails [OF that]
    by (simp add: export_projects_fst export_projects_files export_projects_calls)
  have eg: "fst (export_groups gl out sc sl w) = Inl e \<and>
      files (snd (export_groups gl out sc sl w)) =
        (files w)(out \<mapsto> header_row group_fieldnames # rows_of (fetch_group gl sc) xs) \<and>
      api_calls (snd (export_groups gl out sc sl w)) =
        api_calls w @ GroupsList #
          concat (map (resource_calls GroupsGet (groups_get gl) sc) (xs @ bad))"
    if "listing_fails (resource_ok (groups_get gl) sc) (resource_fails (groups_get gl) sc)
      (groups_list gl) xs bad e"
    using group_stage_fails [OF that]
    by (simp add: export_groups_fst export_groups_files export_groups_calls)
  have eu: "fst (export_users gl out sl w) = Inl e \<and>
      files (snd (export_users gl out sl w)) =
        (files w)(out \<mapsto> header_row user_fieldnames # rows_of (fetch_user gl) xs) \<and>
      api_calls (snd (export_users gl out sl w)) =
        api_calls w @ UsersList # concat (map user_calls (xs @ bad))"
    if "listing_fails (user_ok (users_get gl)) (user_fails (users_get gl)) (users_list gl) xs bad e"
    using user_stage_fails [OF that]
    by (simp add: export_users_fst export_users_files export_users_calls)
  note run = main_fst main_stdout main_files main_calls first_failure_def run_files_def
    run_calls_def Let_def
  have m1: "fst (main ev a st) = Inl e \<and> stdout (snd (main ev a st)) = stdout st \<and>
      files (snd (main ev a st)) =
        (files st)((d, ''projects.csv'') \<mapsto>
           header_row project_fieldnames # rows_of (fetch_project gl sc) xs) \<and>
      api_calls (snd (main ev a st)) =
        api_calls st @ Auth # ProjectsList False #
          concat (map (resource_calls ProjectsGet (projects_get gl) sc) (xs @ bad))"
    if v: "validated_run ev a gl sc d"
      and p: "listing_fails (resource_ok (projects_get gl) sc) (resource_fails (projects_get gl) sc)
        (projects_list gl False) xs bad e"
    using project_stage_fails [OF p] validated_runD [OF v] by (simp add: run)
  have m2: "fst (main ev a st) = Inl e \<and> stdout (snd (main ev a st)) = stdout st \<and>
      files (snd (main ev a st)) =
        (files st)
          ((d, ''projects.csv'') \<mapsto>
             header_row project_fieldnames #
             rows_of (fetch_project gl sc) (walk_items (projects_list gl False)),
           (d, ''archived_projects.csv'') \<mapsto>
             header_row project_fieldnames # rows_of (fetch_project gl sc) xs) \<and>
      api_calls (snd (main ev a st)) =
        api_calls st @ Auth #
          (ProjectsList False #
             concat (map (resource_calls ProjectsGet (projects_get gl) sc)
               (walk_items (projects_list gl False)))) @
          ProjectsList True #
             concat (map (resource_calls ProjectsGet (projects_get gl) sc) (xs @ bad))"
    if v: "validated_run ev a gl sc d"
      and p: "listing_ok (resource_ok (projects_get gl) sc) (projects_list gl False)"
      and i: "arg_include_archived a"
      and q: "listing_fails (resource_ok (projects_get gl) sc) (resource_fails (projects_get gl) sc)
        (projects_list gl True) xs bad e"
    using project_stage_ok [OF p] project_stage_fails [OF q] validated_runD [OF v] i
    by (simp add: run)
  have m3: "fst (main ev a st) = Inl e \<and> stdout (snd (main ev a st)) = stdout st \<and>
      files (snd (main ev a st)) =
        (let F1 = (files st)((d, ''projects.csv'') \<mapsto>
                     header_row project_fieldnames #
                     rows_of (fetch_project gl sc) (walk_items (projects_list gl False)));
             F2 = (if arg_include_archived a
                   then F1((d, ''archived_projects.csv'') \<mapsto>
                          header_row project_fieldnames #
                          rows_of (fetch_project gl sc) (walk_items (projects_list gl True)))
                   else F1)
         in F2((d, ''groups.csv'') \<mapsto> header_row group_fieldnames # rows_of (fetch_group gl sc) xs)) \<and>
      api_calls (snd (main ev a st)) =
        api_calls st @ Auth #
          (ProjectsList False #
             concat (map (resource_calls ProjectsGet (projects_get gl) sc)
               (walk_items (projects_list gl False)))) @
          (if arg_include_archived a
           then ProjectsList True #
                  concat (map (resource_calls ProjectsGet (projects_get gl) sc)
                    (walk_items (projects_list gl True)))
           else []) @
          GroupsList # concat (map (resource_calls GroupsGet (groups_get gl) sc) (xs @ bad))"
    if v: "validated_run ev a gl sc d"
      and p: "listing_ok (resource_ok (projects_get gl) sc) (projects_list gl False)"
      and i: "arg_include_archived a \<longrightarrow>
              listing_ok (resource_ok (projects_get gl) sc) (projects_list gl True)"
      and q: "listing_fails (resource_ok (groups_get gl) sc) (resource_fails (groups_get gl) sc)
        (groups_list gl) xs bad e"
  proof (cases "arg_include_archived a")
    case True
    with i have "listing_ok (resource_ok (projects_get gl) sc) (projects_list gl True)" by simp
    from project_stage_ok [OF p] project_stage_ok [OF this] group_stage_fails [OF q]
      validated_runD [OF v] True
    show ?thesis by (simp add: run)
  next
    case False
    from project_stage_ok [OF p] group_stage_fails [OF q] validated_runD [OF v] False
    show ?thesis by (simp add: run)
  qed
  have m4: "fst (main ev a st) = Inl e \<and> stdout (snd (main ev a st)) = stdout st \<and>
      files (snd (main ev a st)) =
        (let F1 = (files st)((d, ''projects.csv'') \<mapsto>
                     header_row project_fieldnames #
                     rows_of (fetch_project gl sc) (walk_items (projects_list gl False)));
             F2 = (if arg_include_archived a
                   then F1((d, ''archived_projects.csv'') \<mapsto>
                          header_row project_fieldnames #
                          rows_of (fetch_project gl sc) (walk_items (projects_list gl True)))
                   else F1);
             F3 = F2((d, ''groups.csv'') \<mapsto>
                     header_row group_fieldnames #
                     rows_of (fetch_group gl sc) (walk_items (groups_list gl)))
         in F3((d, ''users.csv'') \<mapsto> header_row user_fieldnames # rows_of (fetch_user gl) xs)) \<and>
      api_calls (snd (main ev a st)) =
        api_calls st @ Auth #
          (ProjectsList False #
             concat (map (resource_calls ProjectsGet (projects_get gl) sc)
               (walk_items (projects_list gl False)))) @
          (if arg_include_archived a
           then ProjectsList True #
                  concat (map (resource_calls ProjectsGet (projects_get gl) sc)
                    (walk_items (projects_list gl True)))
           else []) @
          (GroupsList #
             concat (map (resource_calls GroupsGet (groups_get gl) sc) (walk_items (groups_list gl)))) @
          UsersList # concat (map user_calls (xs @ bad))"
    if v: "validated_run ev a gl sc d"
      and p: "listing_ok (resource_ok (projects_get gl) sc) (projects_list gl False)"
      and i: "arg_include_archived a \<longrightarrow>
              listing_ok (resource_ok (projects_get gl) sc) (projects_list gl True)"
      and g: "listing_ok (resource_ok (groups_get gl) sc) (groups_list gl)"
      and q: "listing_fails (user_ok (users_get gl)) (user_fails (users_get gl)) (users_list gl) xs bad e"
  proof (cases "arg_include_archived a")
    case True
    with i have "listing_ok (resource_ok (projects_get gl) sc) (projects_list gl True)" by simp
    from project_stage_ok [OF p] project_stage_ok [OF this] group_stage_ok [OF g]
      user_stage_fails [OF q] validated_runD [OF v] True
    show ?thesis by (simp add: run)
  next
    case False
    from project_stage_ok [OF p] group_stage_ok [OF g] user_stage_fails [OF q]
      validated_runD [OF v] False
    show ?thesis by (simp add: run)
  qed
  from ep eg eu m1 m2 m3 m4 show ?thesis by blast
qed

lemma archived_config:
  "arg_url archived_args \<noteq> []" "arg_token archived_args \<noteq> []" "arg_include_archived archived_args"
  "arg_members_scope archived_args = ''direct''" "out_dir (demo_env gl) archived_args = ''out''"
  "client (demo_env gl) archived_args = gl"
  by (simp_all add: archived_args_def demo_args_def out_dir_def client_def demo_env_def posix_norm_def)

lemma failing_auth:
  "auth paged_out_gl = None" "auth archived_down_gl = None" "auth locked_gl = None"
  by (simp_all add: paged_out_gl_def archived_down_gl_def locked_gl_def demo_gl_def)

lemma scenario_clients:
  "projects_get paged_out_gl = projects_get demo_gl"
  "projects_list paged_out_gl False = Page [stub 1, stub 2] (Raise (GitlabError ''502 Bad Gateway''))"
  "projects_get archived_down_gl = projects_get demo_gl"
  "projects_list archived_down_gl False = projects_list demo_gl False"
  "projects_list archived_down_gl True = Raise (GitlabError ''502 Bad Gateway'')"
  "projects_get flaky_gl = projects_get demo_gl"
  "projects_list flaky_gl = projects_list demo_gl"
  "groups_list flaky_gl = Page [stub 5] (Page [stub 6] End)"
  "projects_get locked_gl = projects_get demo_gl"
  "projects_list locked_gl = projects_list demo_gl"
  "groups_get locked_gl = groups_get demo_gl"
  "groups_list locked_gl = groups_list demo_gl"
  "users_list locked_gl = Page [stub 1] (Page [stub 2] End)"
  "groups_list gone_gl = Page [stub 5] End"
  by (simp_all add: paged_out_gl_def archived_down_gl_def flaky_gl_def locked_gl_def gone_gl_def
      demo_gl_def)

lemma demo_listings:
  "listing_ok (resource_ok (projects_get demo_gl) ''direct'') (projects_list demo_gl False)"
  "listing_ok (resource_ok (projects_get demo_gl) ''direct'') (projects_list demo_gl True)"
  "listing_ok (resource_ok (groups_get demo_gl) ''direct'') (groups_list demo_gl)"
  "walk_items (projects_list demo_gl False) = [stub 1, stub 2, stub 3]"
  "walk_items (projects_list demo_gl True) = []"
  "walk_items (groups_list demo_gl) = [stub 5]"
  by (simp_all add: listing_ok_def resource_ok_def members_of_def demo_gl_def stub_def
      demo_resource_def)

lemma failing_listings:
  "listing_fails (resource_ok (projects_get demo_gl) ''direct'')
     (resource_fails (projects_get demo_gl) ''direct'')
     (Page [stub 1, stub 2] (Raise (GitlabError ''502 Bad Gateway''))) [stub 1, stub 2] []
     (GitlabError ''502 Bad Gateway'')"
  "listing_fails (resource_ok (projects_get demo_gl) ''direct'')
     (resource_fails (projects_get demo_gl) ''direct'')
     (Raise (GitlabError ''502 Bad Gateway'')) [] [] (GitlabError ''502 Bad Gateway'')"
  "listing_fails (resource_ok (groups_get flaky_gl) ''direct'')
     (resource_fails (groups_get flaky_gl) ''direct'')
     (Page [stub 5] (Page [stub 6] End)) [stub 5] [stub 6] (GitlabError ''429 Too Many Requests'')"
  "listing_fails (user_ok (users_get locked_gl)) (user_fails (users_get locked_gl))
     (Page [stub 1] (Page [stub 2] End)) [stub 1] [stub 2] (GitlabError ''403 Forbidden'')"
  "listing_fails (resource_ok (groups_get gone_gl) ''direct'')
     (resource_fails (groups_get gone_gl) ''direct'')
     (Page [stub 5] End) [] [stub 5] (GitlabError ''404 Not Found'')"
  by (simp_all add: listing_fails_def resource_ok_def resource_fails_def user_ok_def
      user_fails_def members_of_def demo_gl_def flaky_gl_def locked_gl_def gone_gl_def stub_def
      demo_resource_def)

lemma scenario_calls:
  "resource_calls ProjectsGet (projects_get demo_gl) ''direct'' (stub i)
     = [ProjectsGet (PyInt i), MembersList]"
  "resource_calls GroupsGet (groups_get demo_gl) ''direct'' (stub i)
     = [GroupsGet (PyInt i), MembersList]"
  "resource_calls GroupsGet (groups_get flaky_gl) ''direct'' (stub i)
     = [GroupsGet (PyInt i), MembersList]"
  "resource_calls GroupsGet (groups_get gone_gl) ''direct'' (stub i) = [GroupsGet (PyInt i)]"
  "user_calls (stub i) = [UsersGet (PyInt i)]"
  by (simp_all add: resource_calls_def user_calls_def demo_gl_def flaky_gl_def gone_gl_def stub_def)

lemma scenario_runs:
  "validated_run (demo_env paged_out_gl) demo_args paged_out_gl ''direct'' ''out''"
  "validated_run (demo_env archived_down_gl) archived_args archived_down_gl ''direct'' ''out''"
  "validated_run (demo_env flaky_gl) demo_args flaky_gl ''direct'' ''out''"
  "validated_run (demo_env flaky_gl) archived_args flaky_gl ''direct'' ''out''"
  "validated_run (demo_env locked_gl) demo_args locked_gl ''direct'' ''out''"
  by (simp_all add: validated_run_def demo_config archived_config demo_auth failing_auth)

theorem run_aborts_on_failure_witness:
  "fst (main (demo_env paged_out_gl) demo_args world0) = Inl (GitlabError ''502 Bad Gateway'') \<and>
   (\<exists>r1 r2. files (snd (main (demo_env paged_out_gl) demo_args world0)) (''out'', ''projects.csv'')
      = Some [header_row project_fieldnames, r1, r2]) \<and>
   files (snd (main (demo_env paged_out_gl) demo_args world0)) (''out'', ''groups.csv'') = None \<and>
   api_calls (snd (main (demo_env paged_out_gl) demo_args world0)) =
     [Auth, ProjectsList False, ProjectsGet (PyInt 1), MembersList, ProjectsGet (PyInt 2),
      MembersList] \<and>
   fst (main (demo_env archived_down_gl) archived_args world0) = Inl (GitlabError ''502 Bad Gateway'') \<and>
   files (snd (main (demo_env archived_down_gl) archived_args world0)) (''out'', ''archived_projects.csv'')
      = Some [header_row project_fieldnames] \<and>
   (\<exists>r1 r2 r3. files (snd (main (demo_env archived_down_gl) archived_args world0))
      (''out'', ''projects.csv'') = Some [header_row project_fieldnames, r1, r2, r3]) \<and>
   files (snd (main (demo_env archived_down_gl) archived_args world0)) (''out'', ''groups.csv'') = None \<and>
   fst (main (demo_env flaky_gl) demo_args world0) = Inl (GitlabError ''429 Too Many Requests'') \<and>
   (\<exists>r1. files (snd (main (demo_env flaky_gl) demo_args world0)) (''out'', ''groups.csv'')
      = Some [header_row group_fieldnames, r1]) \<and>
   (\<exists>r1 r2 r3. files (snd (main (demo_env flaky_gl) demo_args world0)) (''out'', ''projects.csv'')
      = Some [header_row project_fieldnames, r1, r2, r3]) \<and>
   files (snd (main (demo_env flaky_gl) demo_args world0)) (''out'', ''archived_projects.csv'') = None \<and>
   files (snd (main (demo_env flaky_gl) demo_args world0)) (''out'', ''users.csv'') = None \<and>
   stdout (snd (main (demo_env flaky_gl) demo_args world0)) = [] \<and>
   api_calls (snd (main (demo_env flaky_gl) demo_args world0)) =
     [Auth, ProjectsList False, ProjectsGet (PyInt 1), MembersList, ProjectsGet (PyInt 2),
      MembersList, ProjectsGet (PyInt 3), MembersList, GroupsList, GroupsGet (PyInt 5),
      MembersList, GroupsGet (PyInt 6), MembersList] \<and>
   fst (main (demo_env flaky_gl) archived_args world0) = Inl (GitlabError ''429 Too Many Requests'') \<and>
   files (snd (main (demo_env flaky_gl) archived_args world0)) (''out'', ''archived_projects.csv'')
      = Some [header_row project_fieldnames] \<and>
   files (snd (main (demo_env flaky_gl) archived_args world0)) (''out'', ''users.csv'') = None \<and>
   fst (main (demo_env locked_gl) demo_args world0) = Inl (GitlabError ''403 Forbidden'') \<and>
   (\<exists>r1. files (snd (main (demo_env locked_gl) demo_args world0)) (''out'', ''users.csv'')
      = Some [header_row user_fieldnames, r1]) \<and>
   (\<exists>r1. files (snd (main (demo_env locked_gl) demo_args world0)) (''out'', ''groups.csv'')
      = Some [header_row group_fieldnames, r1]) \<and>
   files (snd (main (demo_env locked_gl) demo_args world0)) (''out'', ''archived_projects.csv'') = None \<and>
   api_calls (snd (main (demo_env locked_gl) demo_args world0)) =
     [Auth, ProjectsList False, ProjectsGet (PyInt 1), MembersList, ProjectsGet (PyInt 2),
      MembersList, ProjectsGet (PyInt 3), MembersList, GroupsList, GroupsGet (PyInt 5),
      MembersList, UsersList, UsersGet (PyInt 1), UsersGet (PyInt 2)] \<and>
   fst (export_projects paged_out_gl (''out'', ''projects.csv'') False ''direct'' 0 world0)
      = Inl (GitlabError ''502 Bad Gateway'') \<and>
   fst (export_groups flaky_gl (''out'', ''groups.csv'') ''direct'' 0 world0)
      = Inl (GitlabError ''429 Too Many Requests'') \<and>
   fst (export_groups gone_gl (''out'', ''groups.csv'') ''direct'' 0 world0)
      = Inl (GitlabError ''404 Not Found'') \<and>
   files (snd (export_groups gone_gl (''out'', ''groups.csv'') ''direct'' 0 world0))
      (''out'', ''groups.csv'') = Some [header_row group_fieldnames] \<and>
   api_calls (snd (export_groups gone_gl (''out'', ''groups.csv'') ''direct'' 0 world0))
      = [GroupsList, GroupsGet (PyInt 5)] \<and>
   fst (export_users locked_gl (''out'', ''users.csv'') 0 world0) = Inl (GitlabError ''403 Forbidden'')"
proof -
  note ev = scenario_clients demo_listings failing_listings scenario_calls scenario_runs
    world0_def rows_of_def demo_config archived_config
  have a: "fst (main (demo_env paged_out_gl) demo_args world0) = Inl (GitlabError ''502 Bad Gateway'') \<and>
    (\<exists>r1 r2. files (snd (main (demo_env paged_out_gl) demo_args world0)) (''out'', ''projects.csv'')
      = Some [header_row project_fieldnames, r1, r2]) \<and>
    files (snd (main (demo_env paged_out_gl) demo_args world0)) (''out'', ''groups.csv'') = None \<and>
    api_calls (snd (main (demo_env paged_out_gl) demo_args world0)) =
     [Auth, ProjectsList False, ProjectsGet (PyInt 1), MembersList, ProjectsGet (PyInt 2),
      MembersList]"
    using run_aborts_on_failure [where ev = "demo_env paged_out_gl" and a = demo_args
        and gl = paged_out_gl and sc = "''direct''" and d = "''out''" and st = world0
        and xs = "[stub 1, stub 2]" and bad = "[]" and e = "GitlabError ''502 Bad Gateway''"]
    by (simp add: ev)
  have b: "fst (main (demo_env archived_down_gl) archived_args world0) = Inl (GitlabError ''502 Bad Gateway'') \<and>
    files (snd (main (demo_env archived_down_gl) archived_args world0)) (''out'', ''archived_projects.csv'')
      = Some [header_row project_fieldnames] \<and>
    (\<exists>r1 r2 r3. files (snd (main (demo_env archived_down_gl) archived_args world0))
      (''out'', ''projects.csv'') = Some [header_row project_fieldnames, r1, r2, r3]) \<and>
    files (snd (main (demo_env archived_down_gl) archived_args world0)) (''out'', ''groups.csv'') = None"
    using run_aborts_on_failure [where ev = "demo_env archived_down_gl" and a = archived_args
        and gl = archived_down_gl and sc = "''direct''" and d = "''out''" and st = world0
        and xs = "[]" and bad = "[]" and e = "GitlabError ''502 Bad Gateway''"]
    by (simp add: ev)
  have c: "fst (main (demo_env flaky_gl) demo_args world0) = Inl (GitlabError ''429 Too Many Requests'') \<and>
    (\<exists>r1. files (snd (main (demo_env flaky_gl) demo_args world0)) (''out'', ''groups.csv'')
      = Some [header_row group_fieldnames, r1]) \<and>
    (\<exists>r1 r2 r3. files (snd (main (demo_env flaky_gl) demo_args world0)) (''out'', ''projects.csv'')
      = Some [header_row project_fieldnames, r1, r2, r3]) \<and>
    files (snd (main (demo_env flaky_gl) demo_args world0)) (''out'', ''archived_projects.csv'') = None \<and>
    files (snd (main (demo_env flaky_gl) demo_args world0)) (''out'', ''users.csv'') = None \<and>
    stdout (snd (main (demo_env flaky_gl) demo_args world0)) = [] \<and>
    api_calls (snd (main (demo_env flaky_gl) demo_args world0)) =
     [Auth, ProjectsList False, ProjectsGet (PyInt 1), MembersList, ProjectsGet (PyInt 2),
      MembersList, ProjectsGet (PyInt 3), MembersList, GroupsList, GroupsGet (PyInt 5),
      MembersList, GroupsGet (PyInt 6), MembersList]"
    using run_aborts_on_failure [where ev = "demo_env flaky_gl" and a = demo_args
        and gl = flaky_gl and sc = "''direct''" and d = "''out''" and st = world0
        and xs = "[stub 5]" and bad = "[stub 6]" and e = "GitlabError ''429 Too Many Requests''"]
    by (simp add: ev)
  have d: "fst (main (demo_env flaky_gl) archived_args world0) = Inl (GitlabError ''429 Too Many Requests'') \<and>
    files (snd (main (demo_env flaky_gl) archived_args world0)) (''out'', ''archived_projects.csv'')
      = Some [header_row project_fieldnames] \<and>
    files (snd (main (demo_env flaky_gl) archived_args world0)) (''out'', ''users.csv'') = None"
    using run_aborts_on_failure [where ev = "demo_env flaky_gl" and a = archived_args
        and gl = flaky_gl and sc = "''direct''" and d = "''out''" and st = world0
        and xs = "[stub 5]" and bad = "[stub 6]" and e = "GitlabError ''429 Too Many Requests''"]
    by (simp add: ev)
  have e: "fst (main (demo_env locked_gl) demo_args world0) = Inl (GitlabError ''403 Forbidden'') \<and>
    (\<exists>r1. files (snd (main (demo_env locked_gl) demo_args world0)) (''out'', ''users.csv'')
      = Some [header_row user_fieldnames, r1]) \<and>
    (\<exists>r1. files (snd (main (demo_env locked_gl) demo_args world0)) (''out'', ''groups.csv'')
      = Some [header_row group_fieldnames, r1]) \<and>
    files (snd (main (demo_env locked_gl) demo_args world0)) (''out'', ''archived_projects.csv'') = None \<and>
    api_calls (snd (main (demo_env locked_gl) demo_args world0)) =
     [Auth, ProjectsList False, ProjectsGet (PyInt 1), MembersList, ProjectsGet (PyInt 2),
      MembersList, ProjectsGet (PyInt 3), MembersList, GroupsList, GroupsGet (PyInt 5),
      MembersList, UsersList, UsersGet (PyInt 1), UsersGet (PyInt 2)]"
    using run_aborts_on_failure [where ev = "demo_env locked_gl" and a = demo_args
        and gl = locked_gl and sc = "''direct''" and d = "''out''" and st = world0
        and xs = "[stub 1]" and bad = "[stub 2]" and e = "GitlabError ''403 Forbidden''"]
    by (simp add: ev)
  have f: "fst (export_projects paged_out_gl (''out'', ''projects.csv'') False ''direct'' 0 world0)
      = Inl (GitlabError ''502 Bad Gateway'')"
    using run_aborts_on_failure [where gl = paged_out_gl and sc = "''direct''" and archived = False
        and xs = "[stub 1, stub 2]" and bad = "[]" and e = "GitlabError ''502 Bad Gateway''"
        and out = "(''out'', ''projects.csv'')" and sl = 0 and w = world0]
    by (simp add: ev)
  have g: "fst (export_groups flaky_gl (''out'', ''groups.csv'') ''direct'' 0 world0)
      = Inl (GitlabError ''429 Too Many Requests'')"
    using run_aborts_on_failure [where gl = flaky_gl and sc = "''direct''"
        and xs = "[stub 5]" and bad = "[stub 6]" and e = "GitlabError ''429 Too Many Requests''"
        and out = "(''out'', ''groups.csv'')" and sl = 0 and w = world0]
    by (simp add: ev)
  have h: "fst (export_groups gone_gl (''out'', ''groups.csv'') ''direct'' 0 world0)
      = Inl (GitlabError ''404 Not Found'') \<and>
    files (snd (export_groups gone_gl (''out'', ''groups.csv'') ''direct'' 0 world0))
      (''out'', ''groups.csv'') = Some [header_row group_fieldnames] \<and>
    api_calls (snd (export_groups gone_gl (''out'', ''groups.csv'') ''direct'' 0 world0))
      = [GroupsList, GroupsGet (PyInt 5)]"
    using run_aborts_on_failure [where gl = gone_gl and sc = "''direct''"
        and xs = "[]" and bad = "[stub 5]" and e = "GitlabError ''404 Not Found''"
        and out = "(''out'', ''groups.csv'')" and sl = 0 and w = world0]
    by (simp add: ev)
  have i: "fst (export_users locked_gl (''out'', ''users.csv'') 0 world0) = Inl (GitlabError ''403 Forbidden'')"
    using run_aborts_on_failure [where gl = locked_gl
        and xs = "[stub 1]" and bad = "[stub 2]" and e = "GitlabError ''403 Forbidden''"
        and out = "(''out'', ''users.csv'')" and sl = 0 and w = world0]
    by (simp add: ev)
  from a b c d e f g h i show ?thesis by blast
qed

end
